theory Spec2Isabelle
  imports Complex_Main
begin

section \<open>JuggleJam: the simple game engine\<close>

text \<open>
  A shallow embedding of the component \<open>SimpleGameEngine\<close> (the engine with coins, store,
  leaderboard, daily rewards and achievements) and of its type declarations.

  Conventions of the embedding.
  \<^item> A JavaScript \<open>number\<close> that holds a coordinate, a velocity or a size is a \<open>real\<close>:
    the arithmetic is the exact one, not IEEE double rounding. A \<open>number\<close> that only ever
    counts (score ticks, coins, progress, streak, timestamps) is an \<open>int\<close>.
  \<^item> \<open>Math.random()\<close> is an injected source \<open>rnd :: nat \<Rightarrow> real\<close>: the \<open>k\<close>-th call made
    by one invocation of a function returns \<open>rnd k\<close>. \<open>Date.now()\<close> is a parameter \<open>now\<close>,
    \<open>Dimensions.get('window')\<close> the pair of parameters \<open>W\<close> (\<open>SCREEN_WIDTH\<close>) and \<open>H\<close>
    (\<open>SCREEN_HEIGHT\<close>), the clock's date strings the parameters \<open>today\<close> and
    \<open>yesterdayString\<close>.
  \<^item> A handler reads two states, as in the source: the snapshot \<open>gameState\<close> that its
    closure holds (the state of the render that created the handler) and the state
    \<open>prev\<close> (or \<open>prevState\<close>) that React passes to its updater. Each function takes both,
    the snapshot first; a handler that runs on the committed state gets the same state
    twice. An updater is applied once; the ball that \<open>updatePhysics\<close> mutates in place
    is the ball of the state it returns.
  \<^item> \<open>setTimeout(f, 0)\<close> is an explicit effect: the function returns the list of deferred
    updates it scheduled, next to the new state.
  \<^item> Writes to \<open>AsyncStorage\<close> (the \<open>save...\<close> functions) are not read back by any function
    modelled here and are left out, as are the fields that only the renderer reads
    (\<open>emoji\<close>, \<open>icon\<close>).
\<close>

subsection \<open>Types\<close>

record Vector2 =
  vec_x :: real
  vec_y :: real

record Ball =
  ball_position :: Vector2
  ball_velocity :: Vector2
  ball_radius :: real

datatype obstacle_type = Cone | Goalpost | Defender

record Obstacle =
  obstacle_id :: string
  obstacle_position :: Vector2
  obstacle_velocity :: Vector2
  obstacle_type :: obstacle_type
  width :: real
  height :: real

record Coin =
  coin_id :: string
  coin_position :: Vector2
  coin_velocity :: Vector2
  coin_radius :: real
  coin_value :: int

datatype GameScreen = Menu | Playing | GameOver | Store | Leaderboard | Achievements

record LeaderboardEntry =
  entry_id :: string
  entry_playerName :: string
  bestTime :: int
  bestCoins :: int
  bestTimeTimestamp :: int
  bestCoinsTimestamp :: int
  bestTimeSkin :: string
  bestCoinsSkin :: string

datatype LeaderboardCategory = TimeCategory | CoinsCategory

record DailyReward =
  day :: int
  reward_coins :: int
  reward_description :: string
  claimed :: bool

datatype achievement_type = TimeAch | CoinsAch | GamesAch | SkinsAch | SpecialAch

record Achievement =
  ach_id :: string
  title :: string
  ach_description :: string
  requirement :: int
  progress :: int
  completed :: bool
  reward :: int
  ach_type :: achievement_type

record BallSkin =
  skin_id :: string
  skin_name :: string
  coinPrice :: int
  cashPrice :: int
  unlocked :: bool

record GameState =
  ball :: Ball
  obstacles :: "Obstacle list"
  coins :: "Coin list"
  score :: int
  highScore :: int
  collectedCoins :: int
  currentScreen :: GameScreen
  selectedSkin :: string
  unlockedSkins :: "string list"
  adsRemoved :: bool
  leaderboard :: "LeaderboardEntry list"
  playerName :: string
  leaderboardCategory :: LeaderboardCategory
  dailyRewards :: "DailyReward list"
  lastLoginDate :: string
  currentStreak :: int
  achievements :: "Achievement list"
  totalGamesPlayed :: int
  canWatchAdToContinue :: bool

record GameConfig =
  gravity :: real
  ballRadius :: real
  screenWidth :: real
  screenHeight :: real
  obstacleSpeed :: real
  spawnRate :: real

subsection \<open>Constants\<close>

definition BASE_CONFIG :: "real \<Rightarrow> real \<Rightarrow> GameConfig" where
  "BASE_CONFIG SCREEN_WIDTH SCREEN_HEIGHT =
     \<lparr>gravity = 0.3, ballRadius = 25, screenWidth = SCREEN_WIDTH,
      screenHeight = SCREEN_HEIGHT, obstacleSpeed = 1.5, spawnRate = 0.008\<rparr>"

definition BALL_SKINS :: "BallSkin list" where
  "BALL_SKINS =
     [\<lparr>skin_id = ''classic'', skin_name = ''Classic'', coinPrice = 0, cashPrice = 0, unlocked = True\<rparr>,
      \<lparr>skin_id = ''basketball'', skin_name = ''Basketball'', coinPrice = 100, cashPrice = 99, unlocked = False\<rparr>,
      \<lparr>skin_id = ''tennis'', skin_name = ''Tennis Ball'', coinPrice = 150, cashPrice = 99, unlocked = False\<rparr>,
      \<lparr>skin_id = ''volleyball'', skin_name = ''Volleyball'', coinPrice = 200, cashPrice = 149, unlocked = False\<rparr>,
      \<lparr>skin_id = ''football'', skin_name = ''American Football'', coinPrice = 250, cashPrice = 149, unlocked = False\<rparr>,
      \<lparr>skin_id = ''baseball'', skin_name = ''Baseball'', coinPrice = 300, cashPrice = 199, unlocked = False\<rparr>,
      \<lparr>skin_id = ''golf'', skin_name = ''Golf Ball'', coinPrice = 350, cashPrice = 199, unlocked = False\<rparr>,
      \<lparr>skin_id = ''crystal'', skin_name = ''Crystal Ball'', coinPrice = 500, cashPrice = 299, unlocked = False\<rparr>]"

definition DAILY_REWARDS :: "DailyReward list" where
  "DAILY_REWARDS =
     [\<lparr>day = 1, reward_coins = 10, reward_description = ''Welcome back!'', claimed = False\<rparr>,
      \<lparr>day = 2, reward_coins = 15, reward_description = ''Keep it up!'', claimed = False\<rparr>,
      \<lparr>day = 3, reward_coins = 20, reward_description = ''Great streak!'', claimed = False\<rparr>,
      \<lparr>day = 4, reward_coins = 25, reward_description = ''You're on fire!'', claimed = False\<rparr>,
      \<lparr>day = 5, reward_coins = 30, reward_description = ''Amazing dedication!'', claimed = False\<rparr>,
      \<lparr>day = 6, reward_coins = 40, reward_description = ''Almost there!'', claimed = False\<rparr>,
      \<lparr>day = 7, reward_coins = 50, reward_description = ''Weekly champion!'', claimed = False\<rparr>]"

definition INITIAL_ACHIEVEMENTS :: "Achievement list" where
  "INITIAL_ACHIEVEMENTS =
     [\<lparr>ach_id = ''first_game'', title = ''Getting Started'',
       ach_description = ''Play your first game'',
       requirement = 1, progress = 0, completed = False, reward = 10, ach_type = GamesAch\<rparr>,
      \<lparr>ach_id = ''collect_50_coins'', title = ''Coin Collector'',
       ach_description = ''Collect 50 coins in total'',
       requirement = 50, progress = 0, completed = False, reward = 20, ach_type = CoinsAch\<rparr>,
      \<lparr>ach_id = ''survive_60s'', title = ''Survivor'',
       ach_description = ''Survive for 60 seconds in one game'',
       requirement = 60, progress = 0, completed = False, reward = 30, ach_type = TimeAch\<rparr>,
      \<lparr>ach_id = ''play_10_games'', title = ''Dedicated Player'',
       ach_description = ''Play 10 games'',
       requirement = 10, progress = 0, completed = False, reward = 25, ach_type = GamesAch\<rparr>,
      \<lparr>ach_id = ''collect_3_skins'', title = ''Fashion Forward'',
       ach_description = ''Unlock 3 different ball skins'',
       requirement = 3, progress = 1, completed = False, reward = 40, ach_type = SkinsAch\<rparr>,
      \<lparr>ach_id = ''collect_100_one_game'', title = ''Treasure Hunter'',
       ach_description = ''Collect 100 coins in one game'',
       requirement = 100, progress = 0, completed = False, reward = 50, ach_type = CoinsAch\<rparr>,
      \<lparr>ach_id = ''survive_120s'', title = ''Master Survivor'',
       ach_description = ''Survive for 2 minutes in one game'',
       requirement = 120, progress = 0, completed = False, reward = 75, ach_type = TimeAch\<rparr>,
      \<lparr>ach_id = ''login_streak'', title = ''Daily Champion'',
       ach_description = ''Login for 7 days in a row'',
       requirement = 7, progress = 0, completed = False, reward = 100, ach_type = SpecialAch\<rparr>]"

subsection \<open>The initial state\<close>

text \<open>The initial value of the component's state (the argument of \<open>useState\<close>).\<close>

definition initialGameState :: "real \<Rightarrow> real \<Rightarrow> GameState" where
  "initialGameState W H =
     \<lparr>ball = \<lparr>ball_position = \<lparr>vec_x = W / 2, vec_y = H / 2\<rparr>,
              ball_velocity = \<lparr>vec_x = 0, vec_y = 0\<rparr>,
              ball_radius = ballRadius (BASE_CONFIG W H)\<rparr>,
      obstacles = [], coins = [], score = 0, highScore = 0, collectedCoins = 0,
      currentScreen = Menu, selectedSkin = ''classic'', unlockedSkins = [''classic''],
      adsRemoved = False, leaderboard = [], playerName = ''Player'',
      leaderboardCategory = TimeCategory, dailyRewards = DAILY_REWARDS,
      lastLoginDate = [], currentStreak = 0, achievements = INITIAL_ACHIEVEMENTS,
      totalGamesPlayed = 0, canWatchAdToContinue = False\<rparr>"

subsection \<open>Difficulty scaling\<close>

record Difficulty =
  speedMultiplier :: real
  spawnMultiplier :: real

definition getDifficultyMultiplier :: "int \<Rightarrow> Difficulty" where
  "getDifficultyMultiplier score' =
     (let timeInSeconds = real_of_int score' / 60 in
      \<lparr>speedMultiplier = min (1 + (timeInSeconds / 120) * 0.8) 2.2,
       spawnMultiplier = min (1 + (timeInSeconds / 90) * 2) 3.5\<rparr>)"

subsection \<open>Identifiers\<close>

text \<open>\<open>Number.prototype.toString()\<close> on an integer: its decimal digits.\<close>

fun digits :: "nat \<Rightarrow> string" where
  "digits n = (if n < 10 then [''0123456789'' ! n]
               else digits (n div 10) @ [''0123456789'' ! (n mod 10)])"

declare digits.simps [simp del]

definition toString :: "int \<Rightarrow> string" where
  "toString i = (if i < 0 then CHR ''-'' # digits (nat (- i)) else digits (nat i))"

subsection \<open>The simulation tick\<close>

text \<open>The ball: gravity, then position, then friction, then the two walls.\<close>

definition applyGravity :: "real \<Rightarrow> real \<Rightarrow> Ball \<Rightarrow> Ball" where
  "applyGravity W H b =
     b\<lparr>ball_velocity := (ball_velocity b)
          \<lparr>vec_y := vec_y (ball_velocity b) + gravity (BASE_CONFIG W H)\<rparr>\<rparr>"

definition updateBallPosition :: "Ball \<Rightarrow> Ball" where
  "updateBallPosition b =
     b\<lparr>ball_position :=
          \<lparr>vec_x = vec_x (ball_position b) + vec_x (ball_velocity b),
           vec_y = vec_y (ball_position b) + vec_y (ball_velocity b)\<rparr>\<rparr>"

definition applyFriction :: "Ball \<Rightarrow> Ball" where
  "applyFriction b =
     b\<lparr>ball_velocity :=
          \<lparr>vec_x = vec_x (ball_velocity b) * 0.95,
           vec_y = vec_y (ball_velocity b) * 0.99\<rparr>\<rparr>"

definition boundaryChecks :: "real \<Rightarrow> real \<Rightarrow> Ball \<Rightarrow> Ball" where
  "boundaryChecks W H b =
     (let b1 = (if vec_x (ball_position b) \<le> ballRadius (BASE_CONFIG W H)
                then b\<lparr>ball_position := (ball_position b)\<lparr>vec_x := ballRadius (BASE_CONFIG W H)\<rparr>,
                       ball_velocity := (ball_velocity b)\<lparr>vec_x := \<bar>vec_x (ball_velocity b)\<bar> * 0.7\<rparr>\<rparr>
                else b)
      in if vec_x (ball_position b1) \<ge> W - ballRadius (BASE_CONFIG W H)
         then b1\<lparr>ball_position := (ball_position b1)\<lparr>vec_x := W - ballRadius (BASE_CONFIG W H)\<rparr>,
                 ball_velocity := (ball_velocity b1)\<lparr>vec_x := - \<bar>vec_x (ball_velocity b1)\<bar> * 0.7\<rparr>\<rparr>
         else b1)"

text \<open>Obstacles and coins advance by their velocity and are kept inside the margin.\<close>

definition onScreen :: "real \<Rightarrow> real \<Rightarrow> Vector2 \<Rightarrow> bool" where
  "onScreen W H p \<longleftrightarrow>
     vec_x p > - 100 \<and> vec_x p < W + 100 \<and> vec_y p > - 100 \<and> vec_y p < H + 100"

definition moveObstacle :: "Obstacle \<Rightarrow> Obstacle" where
  "moveObstacle obstacle =
     obstacle\<lparr>obstacle_position :=
       \<lparr>vec_x = vec_x (obstacle_position obstacle) + vec_x (obstacle_velocity obstacle),
        vec_y = vec_y (obstacle_position obstacle) + vec_y (obstacle_velocity obstacle)\<rparr>\<rparr>"

definition moveCoin :: "Coin \<Rightarrow> Coin" where
  "moveCoin coin =
     coin\<lparr>coin_position :=
       \<lparr>vec_x = vec_x (coin_position coin) + vec_x (coin_velocity coin),
        vec_y = vec_y (coin_position coin) + vec_y (coin_velocity coin)\<rparr>\<rparr>"

text \<open>
  \<open>['cone', 'goalpost', 'defender'][Math.floor(Math.random() * 3)]\<close>. For a draw in
  \<open>[0, 1)\<close> the index is 0, 1 or 2; the sizes are chosen by the source's two conditionals,
  whose last branch is the defender's.
\<close>

definition pickObstacleType :: "real \<Rightarrow> obstacle_type" where
  "pickObstacleType r =
     (let i = \<lfloor>r * 3\<rfloor> in if i = 0 then Cone else if i = 1 then Goalpost else Defender)"

definition newObstacle :: "real \<Rightarrow> real \<Rightarrow> (nat \<Rightarrow> real) \<Rightarrow> int \<Rightarrow> real \<Rightarrow> Obstacle" where
  "newObstacle W H rnd now speedMultiplier' =
     (let left = rnd 1 < 0.5;
          obstacleType = pickObstacleType (rnd 2)
      in \<lparr>obstacle_id = toString now,
          obstacle_position =
            \<lparr>vec_x = (if left then - 50 else W + 50),
             vec_y = rnd 3 * (H - 200) + 100\<rparr>,
          obstacle_velocity =
            \<lparr>vec_x = (if left then obstacleSpeed (BASE_CONFIG W H) * speedMultiplier'
                      else - obstacleSpeed (BASE_CONFIG W H) * speedMultiplier'),
             vec_y = 0\<rparr>,
          obstacle_type = obstacleType,
          width = (if obstacleType = Cone then 30 else if obstacleType = Goalpost then 20 else 40),
          height = (if obstacleType = Cone then 40 else if obstacleType = Goalpost then 80 else 60)\<rparr>)"

text \<open>The coin's draws start at \<open>k\<close>, the number of draws the tick has made before.\<close>

definition newCoin :: "real \<Rightarrow> real \<Rightarrow> (nat \<Rightarrow> real) \<Rightarrow> nat \<Rightarrow> int \<Rightarrow> real \<Rightarrow> Coin" where
  "newCoin W H rnd k now speedMultiplier' =
     (let left = rnd (k + 1) < 0.5;
          coinValue = (if rnd (k + 2) < 0.8 then 1 else 5)
      in \<lparr>coin_id = toString now @ ''_coin'',
          coin_position =
            \<lparr>vec_x = (if left then - 30 else W + 30),
             vec_y = rnd (k + 3) * (H - 200) + 100\<rparr>,
          coin_velocity =
            \<lparr>vec_x = (if left then speedMultiplier' * 1.5 else - speedMultiplier' * 1.5),
             vec_y = 0\<rparr>,
          coin_radius = 15,
          coin_value = coinValue\<rparr>)"

definition hitsObstacle :: "real \<Rightarrow> real \<Rightarrow> Ball \<Rightarrow> Obstacle \<Rightarrow> bool" where
  "hitsObstacle W H b obstacle \<longleftrightarrow>
     (let distance = sqrt
        ((vec_x (ball_position b) - (vec_x (obstacle_position obstacle) + width obstacle / 2))\<^sup>2 +
         (vec_y (ball_position b) - (vec_y (obstacle_position obstacle) + height obstacle / 2))\<^sup>2)
      in distance < ballRadius (BASE_CONFIG W H) + min (width obstacle) (height obstacle) / 2)"

definition touchesCoin :: "real \<Rightarrow> real \<Rightarrow> Ball \<Rightarrow> Coin \<Rightarrow> bool" where
  "touchesCoin W H b coin \<longleftrightarrow>
     (let distance = sqrt
        ((vec_x (ball_position b) - vec_x (coin_position coin))\<^sup>2 +
         (vec_y (ball_position b) - vec_y (coin_position coin))\<^sup>2)
      in distance < ballRadius (BASE_CONFIG W H) + coin_radius coin)"

text \<open>
  The collection loop \<open>for (let i = coins.length - 1; i >= 0; i--)\<close>: the counter is
  \<open>i + 1\<close>, the pair is the coin array and the running \<open>collectedCoins\<close>;
  \<open>splice(i, 1)\<close> removes the coin at index \<open>i\<close>.
\<close>

fun collectLoop :: "real \<Rightarrow> real \<Rightarrow> Ball \<Rightarrow> nat \<Rightarrow> Coin list \<times> int \<Rightarrow> Coin list \<times> int" where
  "collectLoop W H b 0 (cs, acc) = (cs, acc)"
| "collectLoop W H b (Suc i) (cs, acc) =
     (let coin = cs ! i in
      if touchesCoin W H b coin
      then collectLoop W H b i (take i cs @ drop (Suc i) cs, acc + coin_value coin)
      else collectLoop W H b i (cs, acc))"

definition updatePhysics ::
  "real \<Rightarrow> real \<Rightarrow> (nat \<Rightarrow> real) \<Rightarrow> int \<Rightarrow> GameState \<Rightarrow> GameState \<Rightarrow> GameState" where
  "updatePhysics W H rnd now gameState prevState =
     (if currentScreen gameState \<noteq> Playing then prevState
      else
        let d = getDifficultyMultiplier (score prevState);
            b = boundaryChecks W H
                  (applyFriction (updateBallPosition (applyGravity W H (ball prevState))));
            screen1 = (if vec_y (ball_position b) \<ge> H - ballRadius (BASE_CONFIG W H)
                       then GameOver else currentScreen prevState);
            obstacles1 = filter (\<lambda>obstacle. onScreen W H (obstacle_position obstacle))
                           (map moveObstacle (obstacles prevState));
            spawned = (rnd 0 < spawnRate (BASE_CONFIG W H) * spawnMultiplier d);
            obstacles2 = (if spawned
                          then obstacles1 @ [newObstacle W H rnd now (speedMultiplier d)]
                          else obstacles1);
            k = (if spawned then 4 else 1);
            screen2 = (if list_ex (hitsObstacle W H b) obstacles2 then GameOver else screen1);
            coins1 = filter (\<lambda>coin. onScreen W H (coin_position coin))
                       (map moveCoin (coins prevState));
            coins2 = (if rnd k < 0.005
                      then coins1 @ [newCoin W H rnd k now (speedMultiplier d)]
                      else coins1);
            collected = collectLoop W H b (length coins2) (coins2, collectedCoins prevState)
        in prevState\<lparr>ball := b, obstacles := obstacles2, coins := fst collected,
                      score := score prevState + 1, collectedCoins := snd collected,
                      currentScreen := screen2\<rparr>)"

subsection \<open>The tap\<close>

definition horizontalForce :: "real \<Rightarrow> real \<Rightarrow> real" where
  "horizontalForce touchX ballX =
     (let deltaX = touchX - ballX in if deltaX > 0 then 2 else if deltaX < 0 then - 2 else 0)"

definition handleTouch :: "real \<Rightarrow> real \<Rightarrow> GameState \<Rightarrow> GameState \<Rightarrow> GameState" where
  "handleTouch touchX touchY gameState prevState =
     (if currentScreen gameState \<noteq> Playing then prevState
      else
        let ballPos = ball_position (ball prevState);
            upwardForce = - 5;
            newVelX = vec_x (ball_velocity (ball prevState)) * 0.7
                      + horizontalForce touchX (vec_x ballPos);
            newVelY = upwardForce;
            maxVelX = 4;
            maxVelY = 8;
            clampedVelX = max (- maxVelX) (min maxVelX newVelX);
            clampedVelY = max (- maxVelY) (min maxVelY newVelY)
        in prevState\<lparr>ball := (ball prevState)
             \<lparr>ball_velocity := \<lparr>vec_x = clampedVelX, vec_y = clampedVelY\<rparr>\<rparr>\<rparr>)"

subsection \<open>Achievements\<close>

text \<open>
  The update that \<open>setTimeout(() => setGameState(prevState => ({...prevState,
  collectedCoins: newCoins})), 0)\<close> defers: it overwrites the coin balance with the value
  computed when it was scheduled.
\<close>

datatype deferred = SetCollectedCoins int

fun runDeferred :: "deferred \<Rightarrow> GameState \<Rightarrow> GameState" where
  "runDeferred (SetCollectedCoins newCoins) prevState = prevState\<lparr>collectedCoins := newCoins\<rparr>"

text \<open>
  The callback that \<open>updateAchievementProgress\<close> maps over \<open>prev.achievements\<close>;
  \<open>prevCoins\<close> is \<open>prev.collectedCoins\<close>.
\<close>

definition updateAchievement ::
  "int \<Rightarrow> string \<Rightarrow> int \<Rightarrow> Achievement \<Rightarrow> Achievement \<times> deferred list" where
  "updateAchievement prevCoins achievementId sample achievement =
     (if ach_id achievement = achievementId \<and> \<not> completed achievement
      then
        let newProgress = max (progress achievement) sample;
            completed' = (newProgress \<ge> requirement achievement)
        in (achievement\<lparr>progress := newProgress, completed := completed'\<rparr>,
            if completed' \<and> \<not> completed achievement
            then [SetCollectedCoins (prevCoins + reward achievement)] else [])
      else (achievement, []))"

definition updateAchievementProgress ::
  "string \<Rightarrow> int \<Rightarrow> GameState \<Rightarrow> GameState \<times> deferred list" where
  "updateAchievementProgress achievementId sample prev =
     (let results = map (updateAchievement (collectedCoins prev) achievementId sample)
                      (achievements prev)
      in (prev\<lparr>achievements := map fst results\<rparr>, concat (map snd results)))"

text \<open>One queued state update after another; the deferred updates accumulate in order.\<close>

definition andThen ::
  "GameState \<times> deferred list \<Rightarrow> (GameState \<Rightarrow> GameState \<times> deferred list)
   \<Rightarrow> GameState \<times> deferred list" where
  "andThen r f = (let r' = f (fst r) in (fst r', snd r @ snd r'))"

subsection \<open>Game control\<close>

text \<open>
  The updater of \<open>startGame\<close> calls \<open>updateAchievementProgress\<close> twice; each call queues
  an updater of its own, which runs after this one.
\<close>

definition startGame :: "real \<Rightarrow> real \<Rightarrow> GameState \<Rightarrow> GameState \<times> deferred list" where
  "startGame W H prev =
     (let newTotalGamesPlayed = totalGamesPlayed prev + 1;
          started = prev
            \<lparr>ball := \<lparr>ball_position = \<lparr>vec_x = W / 2, vec_y = H / 2\<rparr>,
                      ball_velocity = \<lparr>vec_x = 0, vec_y = 0\<rparr>,
                      ball_radius = ballRadius (BASE_CONFIG W H)\<rparr>,
             obstacles := [], coins := [], score := 0, currentScreen := Playing,
             totalGamesPlayed := newTotalGamesPlayed, canWatchAdToContinue := True\<rparr>
      in andThen
           (andThen (started, []) (updateAchievementProgress ''first_game'' newTotalGamesPlayed))
           (updateAchievementProgress ''play_10_games'' newTotalGamesPlayed))"

definition watchAdToContinue :: "real \<Rightarrow> real \<Rightarrow> GameState \<Rightarrow> GameState" where
  "watchAdToContinue W H prev =
     prev\<lparr>ball := \<lparr>ball_position = \<lparr>vec_x = W / 2, vec_y = H / 2\<rparr>,
                   ball_velocity = \<lparr>vec_x = 0, vec_y = - 3\<rparr>,
                   ball_radius = ballRadius (BASE_CONFIG W H)\<rparr>,
          currentScreen := Playing, canWatchAdToContinue := False\<rparr>"

subsection \<open>Leaderboard\<close>

text \<open>\<open>Array.prototype.findIndex\<close>: the first index whose element satisfies \<open>P\<close>, or \<open>-1\<close>.\<close>

fun findIndex :: "('a \<Rightarrow> bool) \<Rightarrow> 'a list \<Rightarrow> int" where
  "findIndex P [] = - 1"
| "findIndex P (x # xs) =
     (if P x then 0 else (let i = findIndex P xs in if i < 0 then - 1 else i + 1))"

definition submitScore :: "int \<Rightarrow> int \<Rightarrow> int \<Rightarrow> GameState \<Rightarrow> GameState \<Rightarrow> GameState" where
  "submitScore now finalScore coinsEarned gameState prev =
     (let currentTime = now;
          playerName' = playerName gameState;
          skinUsed = selectedSkin gameState;
          existingPlayerIndex =
            findIndex (\<lambda>entry. entry_playerName entry = playerName') (leaderboard gameState);
          updatedLeaderboard =
            (if existingPlayerIndex \<ge> 0
             then
               let existingEntry = leaderboard gameState ! nat existingPlayerIndex;
                   updatedEntry = existingEntry
                     \<lparr>bestTime := max (bestTime existingEntry) finalScore,
                      bestCoins := max (bestCoins existingEntry) coinsEarned,
                      bestTimeTimestamp :=
                        (if finalScore > bestTime existingEntry then currentTime
                         else bestTimeTimestamp existingEntry),
                      bestCoinsTimestamp :=
                        (if coinsEarned > bestCoins existingEntry then currentTime
                         else bestCoinsTimestamp existingEntry),
                      bestTimeSkin :=
                        (if finalScore > bestTime existingEntry then skinUsed
                         else bestTimeSkin existingEntry),
                      bestCoinsSkin :=
                        (if coinsEarned > bestCoins existingEntry then skinUsed
                         else bestCoinsSkin existingEntry)\<rparr>
               in (leaderboard gameState)[nat existingPlayerIndex := updatedEntry]
             else
               leaderboard gameState @
                 [\<lparr>entry_id = toString now, entry_playerName = playerName',
                   bestTime = finalScore, bestCoins = coinsEarned,
                   bestTimeTimestamp = currentTime, bestCoinsTimestamp = currentTime,
                   bestTimeSkin = skinUsed, bestCoinsSkin = skinUsed\<rparr>])
      in prev\<lparr>leaderboard := updatedLeaderboard\<rparr>)"

subsection \<open>Daily login\<close>

text \<open>
  \<open>today\<close> is \<open>new Date().toDateString()\<close> and \<open>yesterdayString\<close> the same for the day
  before: both come from the clock.
\<close>

definition checkDailyLoginReward ::
  "string \<Rightarrow> string \<Rightarrow> GameState \<Rightarrow> GameState \<Rightarrow> GameState \<times> deferred list" where
  "checkDailyLoginReward today yesterdayString gameState prev =
     (let lastLogin = lastLoginDate gameState in
      if lastLogin \<noteq> today
      then
        let newStreak = (if lastLogin = yesterdayString then currentStreak gameState + 1 else 1)
        in if newStreak > 7
           then andThen
                  (prev\<lparr>dailyRewards := map (\<lambda>reward. reward\<lparr>claimed := False\<rparr>) DAILY_REWARDS,
                        lastLoginDate := today, currentStreak := 1\<rparr>, [])
                  (updateAchievementProgress ''login_streak'' 1)
           else andThen
                  (prev\<lparr>lastLoginDate := today, currentStreak := newStreak\<rparr>, [])
                  (updateAchievementProgress ''login_streak'' newStreak)
      else (prev, []))"

subsection \<open>Loading the saved data\<close>

text \<open>
  What the twelve \<open>AsyncStorage.getItem\<close> calls return, each stored string by the value it
  parses to (\<open>parseInt\<close>, \<open>JSON.parse\<close>); a key that was never written is \<open>None\<close>.
\<close>

record SavedData =
  savedHighScore :: "int option"
  savedCoins :: "int option"
  savedSkins :: "string list option"
  savedSelectedSkin :: "string option"
  savedAdsRemoved :: "string option"
  savedLeaderboard :: "LeaderboardEntry list option"
  savedPlayerName :: "string option"
  savedDailyRewards :: "DailyReward list option"
  savedLastLoginDate :: "string option"
  savedCurrentStreak :: "int option"
  savedAchievements :: "Achievement list option"
  savedTotalGamesPlayed :: "int option"

text \<open>The updater of \<open>loadSavedData\<close>; \<open>s || d\<close> on a string takes \<open>d\<close> for the empty one too.\<close>

definition applySavedData :: "SavedData \<Rightarrow> GameState \<Rightarrow> GameState" where
  "applySavedData saved prev =
     prev\<lparr>highScore := (case savedHighScore saved of None \<Rightarrow> 0 | Some v \<Rightarrow> v),
          collectedCoins := (case savedCoins saved of None \<Rightarrow> 0 | Some v \<Rightarrow> v),
          unlockedSkins := (case savedSkins saved of None \<Rightarrow> [''classic''] | Some v \<Rightarrow> v),
          selectedSkin := (case savedSelectedSkin saved of None \<Rightarrow> ''classic''
                           | Some v \<Rightarrow> if v = [] then ''classic'' else v),
          adsRemoved := (savedAdsRemoved saved = Some ''true''),
          leaderboard := (case savedLeaderboard saved of None \<Rightarrow> [] | Some v \<Rightarrow> v),
          playerName := (case savedPlayerName saved of None \<Rightarrow> ''Player''
                         | Some v \<Rightarrow> if v = [] then ''Player'' else v),
          dailyRewards := (case savedDailyRewards saved of None \<Rightarrow> DAILY_REWARDS | Some v \<Rightarrow> v),
          lastLoginDate := (case savedLastLoginDate saved of None \<Rightarrow> [] | Some v \<Rightarrow> v),
          currentStreak := (case savedCurrentStreak saved of None \<Rightarrow> 0 | Some v \<Rightarrow> v),
          achievements := (case savedAchievements saved of None \<Rightarrow> INITIAL_ACHIEVEMENTS
                           | Some v \<Rightarrow> v),
          totalGamesPlayed := (case savedTotalGamesPlayed saved of None \<Rightarrow> 0 | Some v \<Rightarrow> v)\<rparr>"

text \<open>
  \<open>loadSavedData\<close> is defined and called in the mount effect (\<open>useEffect(..., [])\<close>), so
  the \<open>checkDailyLoginReward\<close> it calls after its updater is the one of the first render:
  the snapshot that the check reads is the initial state, while its own updater runs on
  the state that the updater of \<open>loadSavedData\<close> has left.
\<close>

definition loadSavedData ::
  "real \<Rightarrow> real \<Rightarrow> string \<Rightarrow> string \<Rightarrow> SavedData \<Rightarrow> GameState \<Rightarrow> GameState \<times> deferred list" where
  "loadSavedData W H today yesterdayString saved prev =
     andThen (applySavedData saved prev, [])
       (checkDailyLoginReward today yesterdayString (initialGameState W H))"

subsection \<open>Store\<close>

definition purchaseSkinWithCoins :: "string \<Rightarrow> GameState \<Rightarrow> GameState \<Rightarrow> GameState" where
  "purchaseSkinWithCoins skinId gameState prev =
     (case find (\<lambda>s. skin_id s = skinId) BALL_SKINS of
        None \<Rightarrow> prev
      | Some skin \<Rightarrow>
          if collectedCoins gameState \<ge> coinPrice skin \<and> skinId \<notin> set (unlockedSkins gameState)
          then
            let newUnlockedSkins = unlockedSkins gameState @ [skinId]
            in prev\<lparr>collectedCoins := collectedCoins prev - coinPrice skin,
                     unlockedSkins := newUnlockedSkins, selectedSkin := skinId\<rparr>
          else prev)"

subsection \<open>Game over\<close>

text \<open>The two arguments that the game-over effect passes to \<open>submitScore\<close>.\<close>

definition finalScore :: "GameState \<Rightarrow> int" where
  "finalScore gameState = \<lfloor>real_of_int (score gameState) / 60\<rfloor>"

definition coinsThisRound :: "GameState \<Rightarrow> int" where
  "coinsThisRound gameState = collectedCoins gameState"

definition gameOverEffect :: "int \<Rightarrow> GameState \<Rightarrow> GameState \<Rightarrow> GameState \<times> deferred list" where
  "gameOverEffect now gameState prev =
     (if currentScreen gameState = GameOver
      then
        let submitted =
              submitScore now (finalScore gameState) (coinsThisRound gameState) gameState prev;
            scored = (if finalScore gameState > highScore gameState
                      then submitted\<lparr>highScore := finalScore gameState\<rparr> else submitted)
        in andThen (andThen (andThen (andThen (andThen (scored, [])
             (updateAchievementProgress ''survive_60s'' (finalScore gameState)))
             (updateAchievementProgress ''survive_120s'' (finalScore gameState)))
             (updateAchievementProgress ''collect_50_coins'' (coinsThisRound gameState)))
             (updateAchievementProgress ''collect_100_one_game'' (coinsThisRound gameState)))
             (updateAchievementProgress ''collect_3_skins'' (int (length (unlockedSkins gameState))))
      else (prev, []))"

subsection \<open>A run\<close>

text \<open>
  What happens between \<open>startGame\<close> and the return to the menu: timer ticks, taps on the
  game screen, and the continue button, which the game-over screen shows while
  \<open>canWatchAdToContinue\<close> holds. Each handler runs on the committed state.
\<close>

datatype event = Tick "nat \<Rightarrow> real" int | Tap real real | WatchAd

fun step :: "real \<Rightarrow> real \<Rightarrow> event \<Rightarrow> GameState \<Rightarrow> GameState" where
  "step W H (Tick rnd now) s = updatePhysics W H rnd now s s"
| "step W H (Tap touchX touchY) s = handleTouch touchX touchY s s"
| "step W H WatchAd s =
     (if currentScreen s = GameOver \<and> canWatchAdToContinue s then watchAdToContinue W H s else s)"

definition run :: "real \<Rightarrow> real \<Rightarrow> event list \<Rightarrow> GameState \<Rightarrow> GameState" where
  "run W H events s = fold (step W H) events s"

text \<open>The coins a run collects: what each of its events adds to \<open>collectedCoins\<close>.\<close>

fun coinsCollectedInRun :: "real \<Rightarrow> real \<Rightarrow> event list \<Rightarrow> GameState \<Rightarrow> int" where
  "coinsCollectedInRun W H [] s = 0"
| "coinsCollectedInRun W H (e # es) s =
     (collectedCoins (step W H e s) - collectedCoins s) + coinsCollectedInRun W H es (step W H e s)"

subsection \<open>Successive updates of one achievement\<close>

text \<open>
  What a sequence of calls of \<open>updateAchievementProgress\<close> does to one achievement of the
  list: each call applies \<open>updateAchievement\<close> with the coin balance \<open>prevCoins\<close> of the
  state it runs on, so each element of the sequence carries its own balance, identifier
  and sample. The deferred updates accumulate in order.
\<close>

fun updateAchievementSeq ::
  "(int \<times> string \<times> int) list \<Rightarrow> Achievement \<Rightarrow> Achievement \<times> deferred list" where
  "updateAchievementSeq [] a = (a, [])"
| "updateAchievementSeq ((prevCoins, achievementId, sample) # us) a =
     (let r = updateAchievement prevCoins achievementId sample a;
          r' = updateAchievementSeq us (fst r)
      in (fst r', snd r @ snd r'))"

subsection \<open>States used in the scenarios\<close>

text \<open>A source of draws that returns the same number at every call.\<close>

definition constRandom :: "real \<Rightarrow> nat \<Rightarrow> real" where
  "constRandom r k = r"

text \<open>A game in progress on a 375 by 812 window, the ball at rest at \<open>(187, 400)\<close>.\<close>

definition tickScenario :: GameState where
  "tickScenario =
     (initialGameState 375 812)
       \<lparr>ball := \<lparr>ball_position = \<lparr>vec_x = 187, vec_y = 400\<rparr>,
                 ball_velocity = \<lparr>vec_x = 0, vec_y = 0\<rparr>, ball_radius = 25\<rparr>,
        currentScreen := Playing\<rparr>"

text \<open>A game in progress, the ball at \<open>x = 200\<close> with horizontal velocity \<open>prevVelX\<close>.\<close>

definition tapScenario :: "real \<Rightarrow> GameState" where
  "tapScenario prevVelX =
     (initialGameState 375 812)
       \<lparr>ball := \<lparr>ball_position = \<lparr>vec_x = 200, vec_y = 400\<rparr>,
                 ball_velocity = \<lparr>vec_x = prevVelX, vec_y = 1\<rparr>, ball_radius = 25\<rparr>,
        currentScreen := Playing\<rparr>"

text \<open>
  The same game with one obstacle about to leave the margin on the left: its next
  position is \<open>x = -100\<close>.
\<close>

definition marginScenario :: GameState where
  "marginScenario =
     tickScenario
       \<lparr>obstacles :=
          [\<lparr>obstacle_id = ''1'', obstacle_position = \<lparr>vec_x = - 98, vec_y = 300\<rparr>,
            obstacle_velocity = \<lparr>vec_x = - 2, vec_y = 0\<rparr>, obstacle_type = Cone,
            width = 30, height = 40\<rparr>]\<rparr>"

text \<open>
  The initial state after a game over at 75 seconds: the achievement \<open>survive_60s\<close> (the
  third of the list) is completed with progress 75.
\<close>

definition completedSurvivorState :: GameState where
  "completedSurvivorState =
     fst (updateAchievementProgress ''survive_60s'' 75 (initialGameState 375 812))"

text \<open>A leaderboard on which the player has a best time of 50 and a best coin count of 10.\<close>

definition leaderboardScenario :: GameState where
  "leaderboardScenario =
     (initialGameState 375 812)
       \<lparr>leaderboard :=
          [\<lparr>entry_id = ''1'', entry_playerName = ''Rival'', bestTime = 90, bestCoins = 40,
            bestTimeTimestamp = 1, bestCoinsTimestamp = 1,
            bestTimeSkin = ''classic'', bestCoinsSkin = ''classic''\<rparr>,
           \<lparr>entry_id = ''2'', entry_playerName = ''Player'', bestTime = 50, bestCoins = 10,
            bestTimeTimestamp = 2, bestCoinsTimestamp = 2,
            bestTimeSkin = ''classic'', bestCoinsSkin = ''classic''\<rparr>]\<rparr>"

text \<open>
  The storage of a player whose last login was on 1 November, with a streak of 7 and
  every daily reward claimed.
\<close>

definition savedSeventhDay :: SavedData where
  "savedSeventhDay =
     \<lparr>savedHighScore = Some 42, savedCoins = Some 190, savedSkins = Some [''classic''],
      savedSelectedSkin = Some ''classic'', savedAdsRemoved = None, savedLeaderboard = None,
      savedPlayerName = None,
      savedDailyRewards = Some (map (\<lambda>reward. reward\<lparr>claimed := True\<rparr>) DAILY_REWARDS),
      savedLastLoginDate = Some ''Sun Nov 01 2026'', savedCurrentStreak = Some 7,
      savedAchievements = None, savedTotalGamesPlayed = Some 20\<rparr>"

text \<open>A player in the store with 120 coins.\<close>

definition storeScenario :: GameState where
  "storeScenario = (initialGameState 375 812)\<lparr>collectedCoins := 120, currentScreen := Store\<rparr>"

text \<open>
  A returning player on the menu: 500 coins, 12 games played, the two achievements that
  count games completed.
\<close>

definition returningPlayer :: GameState where
  "returningPlayer =
     (initialGameState 375 812)
       \<lparr>collectedCoins := 500, totalGamesPlayed := 12,
        achievements :=
          map (\<lambda>a. if ach_type a = GamesAch then a\<lparr>progress := 12, completed := True\<rparr> else a)
            INITIAL_ACHIEVEMENTS\<rparr>"

text \<open>
  The game that this player starts, with the ball at height \<open>y\<close> moving vertically at
  \<open>v\<close> and the score at \<open>n\<close>: the states of a fall in which the player never taps.
\<close>

definition fallingState :: "real \<Rightarrow> real \<Rightarrow> int \<Rightarrow> GameState" where
  "fallingState y v n =
     (fst (startGame 375 812 returningPlayer))
       \<lparr>ball := \<lparr>ball_position = \<lparr>vec_x = 375 / 2, vec_y = y\<rparr>,
                 ball_velocity = \<lparr>vec_x = 0, vec_y = v\<rparr>, ball_radius = 25\<rparr>,
        score := n\<rparr>"

text \<open>A tick whose draws (all 0.9) spawn neither an obstacle nor a coin.\<close>

definition idleTick :: event where
  "idleTick = Tick (constRandom 0.9) 0"

section \<open>Properties\<close>

subsection \<open>Difficulty\<close>

lemma speedMultiplier_mono:
  "a \<le> b \<Longrightarrow>
   speedMultiplier (getDifficultyMultiplier a) \<le> speedMultiplier (getDifficultyMultiplier b)"
  by (simp add: getDifficultyMultiplier_def Let_def min_def)

lemma spawnMultiplier_mono:
  "a \<le> b \<Longrightarrow>
   spawnMultiplier (getDifficultyMultiplier a) \<le> spawnMultiplier (getDifficultyMultiplier b)"
  by (simp add: getDifficultyMultiplier_def Let_def min_def)

lemma difficulty_values:
  "speedMultiplier (getDifficultyMultiplier n) = min (1 + (real_of_int n / 60 / 120) * 0.8) 2.2
   \<and> spawnMultiplier (getDifficultyMultiplier n) = min (1 + (real_of_int n / 60 / 90) * 2) 3.5"
  by (simp add: getDifficultyMultiplier_def Let_def)

text \<open>
  Claim C5. For a score of \<open>b \<ge> 0\<close> ticks and \<open>t = b / 60\<close>, the difficulty function returns
  \<open>speedMultiplier = min (1 + (t / 120) * 0.8) 2.2\<close> and
  \<open>spawnMultiplier = min (1 + (t / 90) * 2) 3.5\<close>; both are non-decreasing in the score
  (from any smaller score \<open>a \<ge> 0\<close>), the first is at most 2.2 and the second at most 3.5.
\<close>

theorem difficulty_formula_monotone_capped:
  assumes "0 \<le> a" and "a \<le> b"
  shows "speedMultiplier (getDifficultyMultiplier b)
           = min (1 + (real_of_int b / 60 / 120) * 0.8) 2.2
         \<and> spawnMultiplier (getDifficultyMultiplier b)
           = min (1 + (real_of_int b / 60 / 90) * 2) 3.5
         \<and> speedMultiplier (getDifficultyMultiplier a) \<le> speedMultiplier (getDifficultyMultiplier b)
         \<and> spawnMultiplier (getDifficultyMultiplier a) \<le> spawnMultiplier (getDifficultyMultiplier b)
         \<and> speedMultiplier (getDifficultyMultiplier b) \<le> 2.2
         \<and> spawnMultiplier (getDifficultyMultiplier b) \<le> 3.5"
proof -
  have caps: "speedMultiplier (getDifficultyMultiplier b) \<le> 2.2
              \<and> spawnMultiplier (getDifficultyMultiplier b) \<le> 3.5"
    by (simp add: getDifficultyMultiplier_def Let_def min_def)
  show ?thesis
    using difficulty_values [of b] speedMultiplier_mono [OF assms(2)]
      spawnMultiplier_mono [OF assms(2)] caps
    by blast
qed

text \<open>
  At 600 ticks (10 s) and 7200 ticks (2 min): the speed multiplier rises from below 1.8 to
  1.8, the spawn multiplier has reached its cap 3.5.
\<close>

theorem difficulty_formula_monotone_capped_witness:
  "(0::int) \<le> 600 \<and> (600::int) \<le> 7200
   \<and> speedMultiplier (getDifficultyMultiplier 7200) = 1.8
   \<and> spawnMultiplier (getDifficultyMultiplier 7200) = 3.5
   \<and> speedMultiplier (getDifficultyMultiplier 600) \<le> speedMultiplier (getDifficultyMultiplier 7200)
   \<and> spawnMultiplier (getDifficultyMultiplier 600) \<le> spawnMultiplier (getDifficultyMultiplier 7200)"
  using difficulty_formula_monotone_capped [of 600 7200]
  by simp

subsection \<open>One tick of the ball\<close>

lemma ball_of_tick:
  "currentScreen g = Playing \<Longrightarrow>
   ball (updatePhysics W H rnd now g s) =
     boundaryChecks W H (applyFriction (updateBallPosition (applyGravity W H (ball s))))"
  by (simp add: updatePhysics_def Let_def)

text \<open>
  Claim C2, as the code has it. For a ball at \<open>(187, 400)\<close> with velocity \<open>(0, 0)\<close> in the
  playing phase (the phase that the tick's guard reads), with gravity 0.3, one tick (gravity, then position, then damping) gives
  velocity.y = 0.3 before damping and 0.297 after it, and position.y = 400.3: the position
  is advanced by the velocity before damping.
\<close>

theorem tick_scenario_integrates_before_damping:
  assumes "currentScreen g = Playing"
    and "ball_position (ball s) = \<lparr>vec_x = 187, vec_y = 400\<rparr>"
    and "ball_velocity (ball s) = \<lparr>vec_x = 0, vec_y = 0\<rparr>"
  shows "gravity (BASE_CONFIG W H) = 0.3
         \<and> vec_y (ball_velocity (applyGravity W H (ball s))) = 0.3
         \<and> vec_y (ball_velocity (ball (updatePhysics W H rnd now g s))) = 0.297
         \<and> vec_y (ball_position (ball (updatePhysics W H rnd now g s))) = 400.3"
  using assms
  by (simp add: ball_of_tick boundaryChecks_def applyFriction_def updateBallPosition_def
      applyGravity_def BASE_CONFIG_def Let_def)

theorem tick_scenario_integrates_before_damping_witness:
  "currentScreen tickScenario = Playing
   \<and> ball_position (ball tickScenario) = \<lparr>vec_x = 187, vec_y = 400\<rparr>
   \<and> ball_velocity (ball tickScenario) = \<lparr>vec_x = 0, vec_y = 0\<rparr>
   \<and> vec_y (ball_velocity (ball (updatePhysics 375 812 (constRandom 0.9) 0 tickScenario tickScenario))) = 0.297
   \<and> vec_y (ball_position (ball (updatePhysics 375 812 (constRandom 0.9) 0 tickScenario tickScenario))) = 400.3"
  using tick_scenario_integrates_before_damping
    [where g = tickScenario and s = tickScenario and W = 375 and H = 812
       and rnd = "constRandom 0.9" and now = 0]
  by (simp add: tickScenario_def)

text \<open>
  Claim C2 as stated fails: in the scenario the ball's position.y after the tick is not
  400.297.
\<close>

theorem tick_scenario_position_counterexample:
  "\<not> (vec_y (ball_velocity (ball (updatePhysics 375 812 (constRandom 0.9) 0 tickScenario tickScenario))) = 0.297
      \<and> vec_y (ball_position (ball (updatePhysics 375 812 (constRandom 0.9) 0 tickScenario tickScenario))) = 400.297)"
  by (simp add: tickScenario_def ball_of_tick boundaryChecks_def applyFriction_def
      updateBallPosition_def applyGravity_def BASE_CONFIG_def Let_def)

subsection \<open>The tap\<close>

text \<open>
  Claim C4, as the code has it. For every prior ball velocity, a tap at \<open>x = 300\<close> while
  ball.x = 200, in the playing phase, selects the horizontal force +2 and sets velocity.y
  to \<open>-5\<close>; velocity.x becomes \<open>prevVelX * 0.7 + 2\<close> clamped to \<open>[-4, 4]\<close>, which is
  \<open>prevVelX * 0.7 + 2\<close> itself exactly when \<open>-60/7 \<le> prevVelX \<le> 20/7\<close>.
\<close>

theorem tap_right_of_ball:
  assumes "currentScreen g = Playing" and "vec_x (ball_position (ball s)) = 200"
  shows "horizontalForce 300 (vec_x (ball_position (ball s))) = 2
         \<and> vec_x (ball_velocity (ball (handleTouch 300 touchY g s)))
             = max (- 4) (min 4 (vec_x (ball_velocity (ball s)) * 0.7 + 2))
         \<and> (vec_x (ball_velocity (ball (handleTouch 300 touchY g s)))
               = vec_x (ball_velocity (ball s)) * 0.7 + 2
             \<longleftrightarrow> - 60 / 7 \<le> vec_x (ball_velocity (ball s))
                 \<and> vec_x (ball_velocity (ball s)) \<le> 20 / 7)
         \<and> vec_y (ball_velocity (ball (handleTouch 300 touchY g s))) = - 5"
  using assms
  by (auto simp: handleTouch_def Let_def horizontalForce_def min_def max_def)

text \<open>A tap on a ball that moves right at 1: the new velocity is \<open>(2.7, -5)\<close>.\<close>

theorem tap_right_of_ball_witness:
  "currentScreen (tapScenario 1) = Playing
   \<and> vec_x (ball_position (ball (tapScenario 1))) = 200
   \<and> vec_x (ball_velocity (ball (handleTouch 300 100 (tapScenario 1) (tapScenario 1)))) = 2.7
   \<and> vec_y (ball_velocity (ball (handleTouch 300 100 (tapScenario 1) (tapScenario 1)))) = - 5"
  using tap_right_of_ball [where g = "tapScenario 1" and s = "tapScenario 1" and touchY = 100]
  by (simp add: tapScenario_def initialGameState_def)

text \<open>
  Claim C4 as stated fails: with prior velocity.x = 4 (the cap, which a previous tap can
  leave) the tap gives velocity.x = 4, not \<open>4 * 0.7 + 2 = 4.8\<close>.
\<close>

theorem tap_right_of_ball_counterexample:
  "\<not> (vec_x (ball_velocity (ball (handleTouch 300 100 (tapScenario 4) (tapScenario 4))))
        = vec_x (ball_velocity (ball (tapScenario 4))) * 0.7 + 2
      \<and> vec_y (ball_velocity (ball (handleTouch 300 100 (tapScenario 4) (tapScenario 4)))) = - 5)"
  by (simp add: handleTouch_def Let_def horizontalForce_def tapScenario_def initialGameState_def)

subsection \<open>The ball's radius and the velocity caps\<close>

lemma radius_of_tick:
  "ball_radius (ball (updatePhysics W H rnd now g s)) = ball_radius (ball s)"
  by (simp add: updatePhysics_def Let_def boundaryChecks_def applyFriction_def
      updateBallPosition_def applyGravity_def)

lemma radius_of_tap:
  "ball_radius (ball (handleTouch touchX touchY g s)) = ball_radius (ball s)"
  by (simp add: handleTouch_def Let_def)

lemma radius_of_startGame:
  "ball_radius (ball (fst (startGame W H s))) = ballRadius (BASE_CONFIG W H)"
  by (simp add: startGame_def andThen_def updateAchievementProgress_def Let_def)

lemma radius_of_step:
  "ball_radius (ball s) = ballRadius (BASE_CONFIG W H) \<Longrightarrow>
   ball_radius (ball (step W H e s)) = ballRadius (BASE_CONFIG W H)"
  by (cases e) (simp_all add: radius_of_tick radius_of_tap watchAdToContinue_def)

lemma radius_of_run:
  "ball_radius (ball s) = ballRadius (BASE_CONFIG W H) \<Longrightarrow>
   ball_radius (ball (run W H events s)) = ballRadius (BASE_CONFIG W H)"
  unfolding run_def
proof (induction events arbitrary: s)
  case Nil
  then show ?case by simp
next
  case (Cons e events)
  from Cons.prems have "ball_radius (ball (step W H e s)) = ballRadius (BASE_CONFIG W H)"
    by (rule radius_of_step)
  then show ?case using Cons.IH by simp
qed

lemma velocity_of_tap:
  "currentScreen g = Playing \<Longrightarrow>
   \<bar>vec_x (ball_velocity (ball (handleTouch touchX touchY g s)))\<bar> \<le> 4
   \<and> \<bar>vec_y (ball_velocity (ball (handleTouch touchX touchY g s)))\<bar> \<le> 8"
  by (simp add: handleTouch_def Let_def)

text \<open>
  Claim C7. A tick leaves the ball's radius unchanged, and so does a tap; after any
  sequence of ticks, taps and continues that follows \<open>startGame\<close>, the radius is the
  configured ball radius. A tap in the playing phase leaves a velocity with
  \<open>|velocity.x| \<le> 4\<close> and \<open>|velocity.y| \<le> 8\<close>.
\<close>

theorem ball_radius_constant_and_tap_velocity_capped:
  "ball_radius (ball (updatePhysics W H rnd now g s)) = ball_radius (ball s)
   \<and> ball_radius (ball (handleTouch touchX touchY g s)) = ball_radius (ball s)
   \<and> ball_radius (ball (run W H events (fst (startGame W H s0)))) = ballRadius (BASE_CONFIG W H)
   \<and> (currentScreen g = Playing \<longrightarrow>
        \<bar>vec_x (ball_velocity (ball (handleTouch touchX touchY g s)))\<bar> \<le> 4
        \<and> \<bar>vec_y (ball_velocity (ball (handleTouch touchX touchY g s)))\<bar> \<le> 8)"
  using radius_of_tick [of W H rnd now g s] radius_of_tap [of touchX touchY g s]
    radius_of_run [OF radius_of_startGame, of W H events s0]
    velocity_of_tap [of g touchX touchY s]
  by blast

text \<open>
  A tap on a ball at the horizontal cap, and a run of a tick, a tap and a tick from the
  start of a game: the radius stays 25.
\<close>

theorem ball_radius_constant_and_tap_velocity_capped_witness:
  "currentScreen (tapScenario 4) = Playing
   \<and> ball_radius (ball (updatePhysics 375 812 (constRandom 0) 0 (tapScenario 4) (tapScenario 4))) = 25
   \<and> ball_radius (ball (handleTouch 300 100 (tapScenario 4) (tapScenario 4))) = 25
   \<and> ball_radius (ball (run 375 812 [Tick (constRandom 0) 0, Tap 300 100, Tick (constRandom 0) 16]
        (fst (startGame 375 812 (initialGameState 375 812))))) = 25
   \<and> \<bar>vec_x (ball_velocity (ball (handleTouch 300 100 (tapScenario 4) (tapScenario 4))))\<bar> \<le> 4
   \<and> \<bar>vec_y (ball_velocity (ball (handleTouch 300 100 (tapScenario 4) (tapScenario 4))))\<bar> \<le> 8"
  using ball_radius_constant_and_tap_velocity_capped
    [where W = 375 and H = 812 and rnd = "constRandom 0" and now = 0
       and g = "tapScenario 4" and s = "tapScenario 4" and touchX = 300 and touchY = 100
       and events = "[Tick (constRandom 0) 0, Tap 300 100, Tick (constRandom 0) 16]"
       and ?s0.0 = "initialGameState 375 812"]
  by (simp add: tapScenario_def initialGameState_def BASE_CONFIG_def)

subsection \<open>Obstacles and coins stay inside the margin\<close>

lemma sqrt_less_iff_sq:
  fixes x r :: real
  assumes "0 \<le> x"
  shows "sqrt x < r \<longleftrightarrow> 0 < r \<and> x < r\<^sup>2"
proof (cases "0 < r")
  case True
  have "sqrt x < r \<longleftrightarrow> sqrt x < sqrt (r\<^sup>2)" using True by simp
  also have "\<dots> \<longleftrightarrow> x < r\<^sup>2" by (rule real_sqrt_less_iff)
  finally show ?thesis using True by simp
next
  case False
  from assms have "0 \<le> sqrt x" by simp
  with False have "\<not> sqrt x < r" by linarith
  with False show ?thesis by simp
qed

text \<open>The two distance tests without the square root, for evaluation.\<close>

lemma hitsObstacle_code [code]:
  "hitsObstacle W H b obstacle \<longleftrightarrow>
     (let r = ballRadius (BASE_CONFIG W H) + min (width obstacle) (height obstacle) / 2
      in 0 < r \<and>
         (vec_x (ball_position b) - (vec_x (obstacle_position obstacle) + width obstacle / 2))\<^sup>2 +
         (vec_y (ball_position b) - (vec_y (obstacle_position obstacle) + height obstacle / 2))\<^sup>2
           < r\<^sup>2)"
  by (simp add: hitsObstacle_def Let_def sqrt_less_iff_sq)

lemma touchesCoin_code [code]:
  "touchesCoin W H b coin \<longleftrightarrow>
     (let r = ballRadius (BASE_CONFIG W H) + coin_radius coin
      in 0 < r \<and>
         (vec_x (ball_position b) - vec_x (coin_position coin))\<^sup>2 +
         (vec_y (ball_position b) - vec_y (coin_position coin))\<^sup>2 < r\<^sup>2)"
  by (simp add: touchesCoin_def Let_def sqrt_less_iff_sq)

lemma collectLoop_subset: "set (fst (collectLoop W H b n (cs, acc))) \<subseteq> set cs"
proof (induction n arbitrary: cs acc)
  case 0
  show ?case by simp
next
  case (Suc i)
  have rm: "set (take i cs @ drop (Suc i) cs) \<subseteq> set cs"
    using set_take_subset [of i cs] set_drop_subset [of "Suc i" cs] by auto
  show ?case
  proof (cases "touchesCoin W H b (cs ! i)")
    case True
    then have "collectLoop W H b (Suc i) (cs, acc) =
        collectLoop W H b i (take i cs @ drop (Suc i) cs, acc + coin_value (cs ! i))"
      by (simp add: Let_def)
    with Suc.IH [of "take i cs @ drop (Suc i) cs" "acc + coin_value (cs ! i)"] rm
    show ?thesis by auto
  next
    case False
    then have "collectLoop W H b (Suc i) (cs, acc) = collectLoop W H b i (cs, acc)"
      by (simp add: Let_def)
    with Suc.IH [of cs acc] show ?thesis by simp
  qed
qed

lemma spawn_height:
  fixes r H :: real
  assumes "0 \<le> r" and "r < 1" and "0 < H"
  shows "- 100 < r * (H - 200) + 100 \<and> r * (H - 200) + 100 < H + 100"
proof (cases "200 \<le> H")
  case True
  have "0 \<le> r * (H - 200)" using assms True by simp
  moreover have "r * (H - 200) \<le> 1 * (H - 200)"
    using assms True by (intro mult_right_mono) auto
  ultimately show ?thesis using assms by simp
next
  case False
  have "r * (H - 200) \<le> 0" using assms False by (simp add: mult_nonneg_nonpos)
  moreover have "1 * (H - 200) \<le> r * (H - 200)"
    using assms False by (intro mult_right_mono_neg) auto
  ultimately show ?thesis using assms by simp
qed

lemma newObstacle_onScreen:
  assumes "0 < W" and "0 < H" and "0 \<le> rnd 3" and "rnd 3 < 1"
  shows "onScreen W H (obstacle_position (newObstacle W H rnd now m))"
  using assms spawn_height [of "rnd 3" H]
  by (simp add: newObstacle_def onScreen_def Let_def)

lemma newCoin_onScreen:
  assumes "0 < W" and "0 < H" and "0 \<le> rnd (k + 3)" and "rnd (k + 3) < 1"
  shows "onScreen W H (coin_position (newCoin W H rnd k now m))"
  using assms spawn_height [of "rnd (k + 3)" H]
  by (simp add: newCoin_def onScreen_def Let_def)

lemma tick_obstacles_onScreen:
  assumes "currentScreen g = Playing" and "0 < W" and "0 < H"
    and "\<forall>k. 0 \<le> rnd k \<and> rnd k < 1"
    and "obstacle \<in> set (obstacles (updatePhysics W H rnd now g s))"
  shows "onScreen W H (obstacle_position obstacle)"
  using assms newObstacle_onScreen [of W H rnd now]
  by (auto simp: updatePhysics_def Let_def split: if_splits)

lemma tick_coins_onScreen:
  assumes "currentScreen g = Playing" and "0 < W" and "0 < H"
    and "\<forall>k. 0 \<le> rnd k \<and> rnd k < 1"
    and "coin \<in> set (coins (updatePhysics W H rnd now g s))"
  shows "onScreen W H (coin_position coin)"
proof -
  let ?d = "getDifficultyMultiplier (score s)"
  let ?b = "boundaryChecks W H (applyFriction (updateBallPosition (applyGravity W H (ball s))))"
  let ?k = "if rnd 0 < spawnRate (BASE_CONFIG W H) * spawnMultiplier ?d then 4 else (1::nat)"
  let ?coins1 = "filter (\<lambda>coin. onScreen W H (coin_position coin)) (map moveCoin (coins s))"
  let ?coins2 = "if rnd ?k < 0.005
                 then ?coins1 @ [newCoin W H rnd ?k now (speedMultiplier ?d)] else ?coins1"
  have eq: "coins (updatePhysics W H rnd now g s)
            = fst (collectLoop W H ?b (length ?coins2) (?coins2, collectedCoins s))"
    using assms(1) by (simp add: updatePhysics_def Let_def)
  have "coin \<in> set ?coins2"
    using assms(5) collectLoop_subset [of W H ?b "length ?coins2" ?coins2 "collectedCoins s"]
    unfolding eq by blast
  moreover have "onScreen W H (coin_position (newCoin W H rnd ?k now (speedMultiplier ?d)))"
    using assms by (intro newCoin_onScreen) auto
  ultimately show ?thesis by (auto split: if_splits)
qed

text \<open>
  Claim C6. After a tick in the playing phase, on a window of positive width and height
  and with draws in \<open>[0, 1)\<close> (the contract of \<open>Math.random\<close>), every obstacle and every coin
  of the world, the ones spawned by this tick included, has position.x strictly between
  \<open>-100\<close> and \<open>screenWidth + 100\<close> and position.y strictly between \<open>-100\<close> and
  \<open>screenHeight + 100\<close>.
\<close>

theorem entities_within_margin_after_tick:
  assumes "currentScreen g = Playing" and "0 < W" and "0 < H"
    and "\<forall>k. 0 \<le> rnd k \<and> rnd k < 1"
  shows "(\<forall>obstacle \<in> set (obstacles (updatePhysics W H rnd now g s)).
            - 100 < vec_x (obstacle_position obstacle)
            \<and> vec_x (obstacle_position obstacle) < W + 100
            \<and> - 100 < vec_y (obstacle_position obstacle)
            \<and> vec_y (obstacle_position obstacle) < H + 100)
         \<and> (\<forall>coin \<in> set (coins (updatePhysics W H rnd now g s)).
            - 100 < vec_x (coin_position coin)
            \<and> vec_x (coin_position coin) < W + 100
            \<and> - 100 < vec_y (coin_position coin)
            \<and> vec_y (coin_position coin) < H + 100)"
  using tick_obstacles_onScreen [OF assms] tick_coins_onScreen [OF assms]
  by (simp add: onScreen_def)

text \<open>
  A tick whose draws are all 0 spawns an obstacle at \<open>(-50, 100)\<close> and a coin at
  \<open>(-30, 100)\<close>, both inside the margin, while an obstacle that the tick moves to
  \<open>x = -100\<close> is dropped.
\<close>

theorem entities_within_margin_after_tick_witness:
  "currentScreen marginScenario = Playing
   \<and> map obstacle_position (obstacles marginScenario) = [\<lparr>vec_x = - 98, vec_y = 300\<rparr>]
   \<and> map obstacle_position (obstacles (updatePhysics 375 812 (constRandom 0) 0 marginScenario marginScenario))
       = [\<lparr>vec_x = - 50, vec_y = 100\<rparr>]
   \<and> map coin_position (coins (updatePhysics 375 812 (constRandom 0) 0 marginScenario marginScenario))
       = [\<lparr>vec_x = - 30, vec_y = 100\<rparr>]
   \<and> list_all (\<lambda>obstacle.
         - 100 < vec_x (obstacle_position obstacle)
         \<and> vec_x (obstacle_position obstacle) < 375 + 100
         \<and> - 100 < vec_y (obstacle_position obstacle)
         \<and> vec_y (obstacle_position obstacle) < 812 + 100)
       (obstacles (updatePhysics 375 812 (constRandom 0) 0 marginScenario marginScenario))
   \<and> list_all (\<lambda>coin.
         - 100 < vec_x (coin_position coin)
         \<and> vec_x (coin_position coin) < 375 + 100
         \<and> - 100 < vec_y (coin_position coin)
         \<and> vec_y (coin_position coin) < 812 + 100)
       (coins (updatePhysics 375 812 (constRandom 0) 0 marginScenario marginScenario))"
proof -
  have h: "\<forall>k. 0 \<le> constRandom 0 k \<and> constRandom 0 k < 1"
    by (simp add: constRandom_def)
  have p: "currentScreen marginScenario = Playing"
    by (simp add: marginScenario_def tickScenario_def)
  have i: "map obstacle_position (obstacles marginScenario) = [\<lparr>vec_x = - 98, vec_y = 300\<rparr>]"
    by (simp add: marginScenario_def)
  have o: "map obstacle_position (obstacles (updatePhysics 375 812 (constRandom 0) 0 marginScenario marginScenario))
           = [\<lparr>vec_x = - 50, vec_y = 100\<rparr>]"
    by (simp add: updatePhysics_def marginScenario_def tickScenario_def initialGameState_def
        Let_def constRandom_def BASE_CONFIG_def getDifficultyMultiplier_def newObstacle_def
        moveObstacle_def onScreen_def)
  have c: "map coin_position (coins (updatePhysics 375 812 (constRandom 0) 0 marginScenario marginScenario))
           = [\<lparr>vec_x = - 30, vec_y = 100\<rparr>]"
    by (simp add: updatePhysics_def marginScenario_def tickScenario_def initialGameState_def
        Let_def constRandom_def BASE_CONFIG_def getDifficultyMultiplier_def newCoin_def
        moveCoin_def onScreen_def touchesCoin_code boundaryChecks_def applyFriction_def
        updateBallPosition_def applyGravity_def power2_eq_square)
  have m: "(0::real) < 375 \<and> (0::real) < 812" by simp
  show ?thesis
    using entities_within_margin_after_tick
        [OF p, where W = 375 and H = 812 and rnd = "constRandom 0" and now = 0
           and s = marginScenario] p h i o c m
    by (simp add: list_all_iff)
qed

subsection \<open>Achievements\<close>

lemma updateAchievement_completed:
  "completed a \<Longrightarrow> updateAchievement prevCoins achievementId sample a = (a, [])"
  by (simp add: updateAchievement_def)

lemma updateAchievementSeq_completed:
  "completed a \<Longrightarrow> updateAchievementSeq us a = (a, [])"
  by (induction us) (auto simp: updateAchievement_completed Let_def)

lemma updateAchievement_step:
  "progress a \<le> progress (fst (updateAchievement prevCoins achievementId sample a))
   \<and> length (snd (updateAchievement prevCoins achievementId sample a)) =
       (if \<not> completed a \<and> completed (fst (updateAchievement prevCoins achievementId sample a))
        then 1 else 0)"
  by (simp add: updateAchievement_def Let_def)

lemma updateAchievement_cases:
  "updateAchievement prevCoins achievementId sample a =
     (if ach_id a = achievementId \<and> \<not> completed a
      then (a\<lparr>progress := max (progress a) sample,
               completed := (requirement a \<le> max (progress a) sample)\<rparr>,
            if requirement a \<le> max (progress a) sample
            then [SetCollectedCoins (prevCoins + reward a)] else [])
      else (a, []))"
  by (simp add: updateAchievement_def Let_def)

lemma updateAchievementSeq_props:
  "progress a \<le> progress (fst (updateAchievementSeq us a))
   \<and> length (snd (updateAchievementSeq us a)) =
       (if \<not> completed a \<and> completed (fst (updateAchievementSeq us a)) then 1 else 0)"
proof (induction us arbitrary: a)
  case Nil
  show ?case by simp
next
  case (Cons u us)
  obtain c aid p where u: "u = (c, aid, p)" by (cases u) auto
  let ?a1 = "fst (updateAchievement c aid p a)"
  note st = updateAchievement_step [of a c aid p]
  note ih = Cons.IH [of ?a1]
  show ?case
  proof (cases "completed ?a1")
    case True
    then show ?thesis using st u by (simp add: Let_def updateAchievementSeq_completed)
  next
    case False
    then have "\<not> completed a" using updateAchievement_completed [of a c aid p] by auto
    then show ?thesis using st ih u False by (simp add: Let_def)
  qed
qed

lemma achievements_of_update:
  "achievements (fst (updateAchievementProgress achievementId sample s)) =
     map (\<lambda>a. fst (updateAchievement (collectedCoins s) achievementId sample a)) (achievements s)"
  by (simp add: updateAchievementProgress_def Let_def)

text \<open>
  Claim C3, as the code has it. An update addressed to an achievement that is not yet
  completed sets \<open>progress' = max progress sample\<close>, sets \<open>completed\<close> to
  \<open>requirement \<le> progress'\<close> and, when that is true, schedules the grant of the reward (one
  deferred write of the balance plus the reward); every other update leaves the achievement
  as it is and schedules nothing, so a completed achievement is frozen whatever the sample.
  Over any sequence of updates the progress does not decrease, and the number of grants
  scheduled is one when the achievement goes from not completed to completed and zero
  otherwise. \<open>updateAchievementProgress\<close> applies that update to each achievement of the
  state.
\<close>

theorem achievement_progress_monotone_reward_once:
  "updateAchievement prevCoins achievementId sample a =
     (if ach_id a = achievementId \<and> \<not> completed a
      then (a\<lparr>progress := max (progress a) sample,
               completed := (requirement a \<le> max (progress a) sample)\<rparr>,
            if requirement a \<le> max (progress a) sample
            then [SetCollectedCoins (prevCoins + reward a)] else [])
      else (a, []))
   \<and> achievements (fst (updateAchievementProgress achievementId sample s)) =
       map (\<lambda>a. fst (updateAchievement (collectedCoins s) achievementId sample a)) (achievements s)
   \<and> progress a \<le> progress (fst (updateAchievementSeq us a))
   \<and> (completed a \<longrightarrow> updateAchievementSeq us a = (a, []))
   \<and> length (snd (updateAchievementSeq us a)) =
       (if \<not> completed a \<and> completed (fst (updateAchievementSeq us a)) then 1 else 0)"
  using updateAchievement_cases [of prevCoins achievementId sample a]
    achievements_of_update [of achievementId sample s]
    updateAchievementSeq_props [of a us] updateAchievementSeq_completed [of a us]
  by blast

text \<open>
  The achievement \<open>survive_60s\<close> (requirement 60, reward 30) under the samples 30, 75, 90
  and 10, on balances 0, 0, 30 and 30: its progress ends at 75, it is completed, and the
  only grant scheduled is the one of the second update.
\<close>

theorem achievement_progress_monotone_reward_once_witness:
  "progress (INITIAL_ACHIEVEMENTS ! 2) = 0 \<and> \<not> completed (INITIAL_ACHIEVEMENTS ! 2)
   \<and> progress (fst (updateAchievementSeq
        [(0, ''survive_60s'', 30), (0, ''survive_60s'', 75), (30, ''survive_60s'', 90),
         (30, ''survive_60s'', 10)] (INITIAL_ACHIEVEMENTS ! 2))) = 75
   \<and> completed (fst (updateAchievementSeq
        [(0, ''survive_60s'', 30), (0, ''survive_60s'', 75), (30, ''survive_60s'', 90),
         (30, ''survive_60s'', 10)] (INITIAL_ACHIEVEMENTS ! 2)))
   \<and> snd (updateAchievementSeq
        [(0, ''survive_60s'', 30), (0, ''survive_60s'', 75), (30, ''survive_60s'', 90),
         (30, ''survive_60s'', 10)] (INITIAL_ACHIEVEMENTS ! 2)) = [SetCollectedCoins 30]
   \<and> length (snd (updateAchievementSeq
        [(0, ''survive_60s'', 30), (0, ''survive_60s'', 75), (30, ''survive_60s'', 90),
         (30, ''survive_60s'', 10)] (INITIAL_ACHIEVEMENTS ! 2))) = 1"
  using achievement_progress_monotone_reward_once
    [of 0 "''survive_60s''" 30 "INITIAL_ACHIEVEMENTS ! 2" "initialGameState 375 812"
        "[(0, ''survive_60s'', 30), (0, ''survive_60s'', 75), (30, ''survive_60s'', 90),
          (30, ''survive_60s'', 10)]"]
  by (simp add: INITIAL_ACHIEVEMENTS_def updateAchievement_def Let_def)

text \<open>
  Claim C3 as stated fails: once \<open>survive_60s\<close> is completed with progress 75, an update
  with the sample 90 does not set its progress to \<open>max 75 90\<close>.
\<close>

theorem achievement_progress_counterexample:
  "\<not> (progress (achievements (fst (updateAchievementProgress ''survive_60s'' 90
          completedSurvivorState)) ! 2)
      = max (progress (achievements completedSurvivorState ! 2)) 90)"
  by (simp add: completedSurvivorState_def updateAchievementProgress_def updateAchievement_def
      initialGameState_def INITIAL_ACHIEVEMENTS_def Let_def)

subsection \<open>Leaderboard\<close>

lemma findIndex_found:
  "0 \<le> findIndex P xs \<Longrightarrow> nat (findIndex P xs) < length xs \<and> P (xs ! nat (findIndex P xs))"
proof (induction xs)
  case Nil
  then show ?case by simp
next
  case (Cons x xs)
  show ?case
  proof (cases "P x")
    case True
    then show ?thesis by simp
  next
    case False
    with Cons.prems have nn: "0 \<le> findIndex P xs" by (simp add: Let_def split: if_splits)
    with False have "findIndex P (x # xs) = findIndex P xs + 1" by (simp add: Let_def)
    moreover have "nat (findIndex P xs + 1) = Suc (nat (findIndex P xs))" using nn by simp
    ultimately show ?thesis using Cons.IH [OF nn] by simp
  qed
qed

text \<open>
  Claim C8. When the leaderboard that the submission reads has an entry of the player
  (\<open>findIndex\<close> finds it at \<open>i\<close>), a submission of \<open>(finalScore, coinsEarned)\<close> keeps the
  length of the leaderboard and makes that entry's bestTime \<open>max\<close> of the old bestTime and
  \<open>finalScore\<close>, its bestCoins \<open>max\<close> of the old bestCoins and \<open>coinsEarned\<close>: neither
  decreases, and each moves without the other (more coins with no better time raise
  bestCoins only, and vice versa).
\<close>

theorem leaderboard_bests_are_independent_maxima:
  assumes "0 \<le> findIndex (\<lambda>entry. entry_playerName entry = playerName g) (leaderboard g)"
  shows "let i = nat (findIndex (\<lambda>entry. entry_playerName entry = playerName g) (leaderboard g));
             old = leaderboard g ! i;
             new = leaderboard (submitScore now finalScore' coinsEarned g s) ! i
         in i < length (leaderboard g) \<and> entry_playerName old = playerName g
            \<and> length (leaderboard (submitScore now finalScore' coinsEarned g s))
                = length (leaderboard g)
            \<and> entry_playerName new = playerName g
            \<and> bestTime new = max (bestTime old) finalScore'
            \<and> bestCoins new = max (bestCoins old) coinsEarned
            \<and> bestTime old \<le> bestTime new \<and> bestCoins old \<le> bestCoins new
            \<and> (finalScore' \<le> bestTime old \<and> bestCoins old < coinsEarned \<longrightarrow>
                 bestTime new = bestTime old \<and> bestCoins new = coinsEarned)
            \<and> (bestTime old < finalScore' \<and> coinsEarned \<le> bestCoins old \<longrightarrow>
                 bestTime new = finalScore' \<and> bestCoins new = bestCoins old)"
  using assms findIndex_found [OF assms]
  by (simp add: submitScore_def Let_def)

text \<open>
  The player's entry is the second one, with bests 50 and 10: the submission \<open>(30, 20)\<close>
  raises bestCoins only, the submission \<open>(70, 5)\<close> bestTime only.
\<close>

theorem leaderboard_bests_are_independent_maxima_witness:
  "findIndex (\<lambda>entry. entry_playerName entry = playerName leaderboardScenario)
     (leaderboard leaderboardScenario) = 1
   \<and> bestTime (leaderboard leaderboardScenario ! 1) = 50
   \<and> bestCoins (leaderboard leaderboardScenario ! 1) = 10
   \<and> bestTime (leaderboard (submitScore 1000 30 20 leaderboardScenario leaderboardScenario) ! 1) = 50
   \<and> bestCoins (leaderboard (submitScore 1000 30 20 leaderboardScenario leaderboardScenario) ! 1) = 20
   \<and> bestTime (leaderboard (submitScore 1000 70 5 leaderboardScenario leaderboardScenario) ! 1) = 70
   \<and> bestCoins (leaderboard (submitScore 1000 70 5 leaderboardScenario leaderboardScenario) ! 1) = 10"
proof -
  have i: "findIndex (\<lambda>entry. entry_playerName entry = playerName leaderboardScenario)
             (leaderboard leaderboardScenario) = 1"
    by (simp add: leaderboardScenario_def initialGameState_def Let_def)
  have o: "bestTime (leaderboard leaderboardScenario ! 1) = 50
           \<and> bestCoins (leaderboard leaderboardScenario ! 1) = 10"
    by (simp add: leaderboardScenario_def)
  show ?thesis
    using leaderboard_bests_are_independent_maxima
        [where g = leaderboardScenario and s = leaderboardScenario and now = 1000
           and finalScore' = 30 and coinsEarned = 20]
      leaderboard_bests_are_independent_maxima
        [where g = leaderboardScenario and s = leaderboardScenario and now = 1000
           and finalScore' = 70 and coinsEarned = 5] i o
    by (simp add: Let_def)
qed

subsection \<open>Daily login\<close>

text \<open>
  The check as a function of the snapshot it reads. On a day other than the snapshot's
  last login, the day after it, with the snapshot's streak plus one above 7, the new streak
  is 1 and the new daily rewards are the seven rewards with every claimed flag false. In
  every other case the daily rewards are left as they are: a consecutive day with a streak
  below 7 adds one to the streak, a gap sets the streak to 1, and a check on the day of
  the last login changes nothing.
\<close>

lemma checkDailyLoginReward_on_snapshot:
  "(lastLoginDate g \<noteq> today \<and> lastLoginDate g = yesterdayString \<and> 7 < currentStreak g + 1 \<longrightarrow>
      currentStreak (fst (checkDailyLoginReward today yesterdayString g s)) = 1
      \<and> length (dailyRewards (fst (checkDailyLoginReward today yesterdayString g s))) = 7
      \<and> list_all (\<lambda>reward. \<not> claimed reward)
          (dailyRewards (fst (checkDailyLoginReward today yesterdayString g s))))
   \<and> (\<not> (lastLoginDate g \<noteq> today \<and> lastLoginDate g = yesterdayString \<and> 7 < currentStreak g + 1) \<longrightarrow>
      dailyRewards (fst (checkDailyLoginReward today yesterdayString g s)) = dailyRewards s)
   \<and> (lastLoginDate g \<noteq> today \<and> lastLoginDate g = yesterdayString \<and> currentStreak g + 1 \<le> 7 \<longrightarrow>
      currentStreak (fst (checkDailyLoginReward today yesterdayString g s)) = currentStreak g + 1)
   \<and> (lastLoginDate g \<noteq> today \<and> lastLoginDate g \<noteq> yesterdayString \<longrightarrow>
      currentStreak (fst (checkDailyLoginReward today yesterdayString g s)) = 1)
   \<and> (lastLoginDate g = today \<longrightarrow> checkDailyLoginReward today yesterdayString g s = (s, []))"
  by (simp add: checkDailyLoginReward_def andThen_def updateAchievementProgress_def Let_def
      DAILY_REWARDS_def)

text \<open>
  The check as the program runs it. The snapshot of the mount effect has the last login
  \<open>''\<close> and the streak 0, and no date string is empty: whatever the storage holds, the
  check takes the gap branch, so the streak after the load is 1 and the daily rewards are
  the loaded ones.
\<close>

lemma load_sets_streak_to_one:
  assumes "today \<noteq> []" and "yesterdayString \<noteq> []"
  shows "currentStreak (fst (loadSavedData W H today yesterdayString saved prev)) = 1
         \<and> lastLoginDate (fst (loadSavedData W H today yesterdayString saved prev)) = today
         \<and> dailyRewards (fst (loadSavedData W H today yesterdayString saved prev))
             = dailyRewards (applySavedData saved prev)"
  using assms
  by (auto simp: loadSavedData_def checkDailyLoginReward_def andThen_def
      updateAchievementProgress_def initialGameState_def Let_def)

lemma loaded_seventh_day:
  "lastLoginDate (applySavedData savedSeventhDay (initialGameState 375 812)) = ''Sun Nov 01 2026''
   \<and> currentStreak (applySavedData savedSeventhDay (initialGameState 375 812)) = 7
   \<and> map claimed (dailyRewards (applySavedData savedSeventhDay (initialGameState 375 812)))
       = [True, True, True, True, True, True, True]"
  by (simp add: applySavedData_def savedSeventhDay_def DAILY_REWARDS_def)

text \<open>
  Claim C9 against the code. The storage holds a last login on 1 November, a streak of 7
  and seven claimed daily rewards, and the application is launched on 2 November, a
  consecutive day. The loaded state has that streak and that date, but the check reads the
  first render's state: the streak becomes 1 and the seven claimed flags stay true. Handed
  the loaded state as its snapshot, the same check sets the streak to 1 and clears the
  seven flags.
\<close>

theorem load_on_consecutive_day_keeps_claimed_flags:
  "lastLoginDate (applySavedData savedSeventhDay (initialGameState 375 812)) = ''Sun Nov 01 2026''
   \<and> currentStreak (applySavedData savedSeventhDay (initialGameState 375 812)) = 7
   \<and> currentStreak (fst (loadSavedData 375 812 ''Mon Nov 02 2026'' ''Sun Nov 01 2026''
        savedSeventhDay (initialGameState 375 812))) = 1
   \<and> lastLoginDate (fst (loadSavedData 375 812 ''Mon Nov 02 2026'' ''Sun Nov 01 2026''
        savedSeventhDay (initialGameState 375 812))) = ''Mon Nov 02 2026''
   \<and> map claimed (dailyRewards (fst (loadSavedData 375 812 ''Mon Nov 02 2026''
        ''Sun Nov 01 2026'' savedSeventhDay (initialGameState 375 812))))
       = [True, True, True, True, True, True, True]
   \<and> currentStreak (fst (checkDailyLoginReward ''Mon Nov 02 2026'' ''Sun Nov 01 2026''
        (applySavedData savedSeventhDay (initialGameState 375 812))
        (applySavedData savedSeventhDay (initialGameState 375 812)))) = 1
   \<and> map claimed (dailyRewards (fst (checkDailyLoginReward ''Mon Nov 02 2026''
        ''Sun Nov 01 2026''
        (applySavedData savedSeventhDay (initialGameState 375 812))
        (applySavedData savedSeventhDay (initialGameState 375 812)))))
       = [False, False, False, False, False, False, False]"
proof -
  have d: "''Mon Nov 02 2026'' \<noteq> []" "''Sun Nov 01 2026'' \<noteq> []"
    "''Sun Nov 01 2026'' \<noteq> ''Mon Nov 02 2026''"
    by simp_all
  note launch = load_sets_streak_to_one
    [OF d(1) d(2), of 375 812 savedSeventhDay "initialGameState 375 812"]
  have wrap: "currentStreak (fst (checkDailyLoginReward ''Mon Nov 02 2026'' ''Sun Nov 01 2026''
                (applySavedData savedSeventhDay (initialGameState 375 812))
                (applySavedData savedSeventhDay (initialGameState 375 812)))) = 1
              \<and> map claimed (dailyRewards (fst (checkDailyLoginReward ''Mon Nov 02 2026''
                ''Sun Nov 01 2026''
                (applySavedData savedSeventhDay (initialGameState 375 812))
                (applySavedData savedSeventhDay (initialGameState 375 812)))))
                = [False, False, False, False, False, False, False]"
    using loaded_seventh_day d(3)
    by (simp add: checkDailyLoginReward_def andThen_def updateAchievementProgress_def
        Let_def DAILY_REWARDS_def)
  show ?thesis
    using launch loaded_seventh_day wrap by simp
qed

subsection \<open>Store\<close>

text \<open>
  Claim C10. A purchase with coins leaves the whole state as it is when the skin id is
  not in the catalogue, when the skin is already unlocked, or when the balance is below the
  skin's coin price (the handler reads both from its snapshot). Otherwise the new state is
  the old one with \<open>collectedCoins\<close> lowered by the coin price, the skin id appended to the
  snapshot's \<open>unlockedSkins\<close>, and the skin selected; when the handler runs on the
  committed state, the new balance is at least 0 and the new \<open>unlockedSkins\<close> is the old
  list with the skin id appended.
\<close>

theorem purchase_with_coins_guarded:
  "(find (\<lambda>skin. skin_id skin = skinId) BALL_SKINS = None \<longrightarrow>
      purchaseSkinWithCoins skinId g s = s)
   \<and> (skinId \<in> set (unlockedSkins g) \<longrightarrow> purchaseSkinWithCoins skinId g s = s)
   \<and> (\<forall>skin. find (\<lambda>skin. skin_id skin = skinId) BALL_SKINS = Some skin \<longrightarrow>
        (collectedCoins g < coinPrice skin \<longrightarrow> purchaseSkinWithCoins skinId g s = s)
        \<and> (coinPrice skin \<le> collectedCoins g \<and> skinId \<notin> set (unlockedSkins g) \<longrightarrow>
             purchaseSkinWithCoins skinId g s =
               s\<lparr>collectedCoins := collectedCoins s - coinPrice skin,
                 unlockedSkins := unlockedSkins g @ [skinId], selectedSkin := skinId\<rparr>
             \<and> collectedCoins (purchaseSkinWithCoins skinId g s)
                 = collectedCoins s - coinPrice skin
             \<and> selectedSkin (purchaseSkinWithCoins skinId g s) = skinId
             \<and> (g = s \<longrightarrow>
                  0 \<le> collectedCoins (purchaseSkinWithCoins skinId g s)
                  \<and> unlockedSkins (purchaseSkinWithCoins skinId g s)
                      = unlockedSkins s @ [skinId])))"
  by (auto simp: purchaseSkinWithCoins_def Let_def split: option.splits)

text \<open>
  With 120 coins: the basketball (100 coins) is bought and 20 coins remain; the tennis
  ball (150 coins), the classic skin (unlocked) and an unknown id change nothing.
\<close>

theorem purchase_with_coins_guarded_witness:
  "find (\<lambda>skin. skin_id skin = ''basketball'') BALL_SKINS = Some (BALL_SKINS ! 1)
   \<and> coinPrice (BALL_SKINS ! 1) = 100 \<and> collectedCoins storeScenario = 120
   \<and> unlockedSkins storeScenario = [''classic'']
   \<and> collectedCoins (purchaseSkinWithCoins ''basketball'' storeScenario storeScenario) = 20
   \<and> unlockedSkins (purchaseSkinWithCoins ''basketball'' storeScenario storeScenario)
       = [''classic'', ''basketball'']
   \<and> selectedSkin (purchaseSkinWithCoins ''basketball'' storeScenario storeScenario) = ''basketball''
   \<and> purchaseSkinWithCoins ''tennis'' storeScenario storeScenario = storeScenario
   \<and> purchaseSkinWithCoins ''classic'' storeScenario storeScenario = storeScenario
   \<and> purchaseSkinWithCoins ''rugby'' storeScenario storeScenario = storeScenario"
proof -
  have f: "find (\<lambda>skin. skin_id skin = ''basketball'') BALL_SKINS = Some (BALL_SKINS ! 1)"
    by (simp add: BALL_SKINS_def)
  have t: "find (\<lambda>skin. skin_id skin = ''tennis'') BALL_SKINS = Some (BALL_SKINS ! 2)"
    by (simp add: BALL_SKINS_def)
  have r: "find (\<lambda>skin. skin_id skin = ''rugby'') BALL_SKINS = None"
    by (simp add: BALL_SKINS_def)
  have v: "coinPrice (BALL_SKINS ! 1) = 100 \<and> coinPrice (BALL_SKINS ! 2) = 150
           \<and> collectedCoins storeScenario = 120 \<and> unlockedSkins storeScenario = [''classic'']"
    by (simp add: BALL_SKINS_def storeScenario_def initialGameState_def)
  show ?thesis
    using purchase_with_coins_guarded
        [where skinId = "''basketball''" and g = storeScenario and s = storeScenario]
      purchase_with_coins_guarded
        [where skinId = "''tennis''" and g = storeScenario and s = storeScenario]
      purchase_with_coins_guarded
        [where skinId = "''classic''" and g = storeScenario and s = storeScenario]
      purchase_with_coins_guarded
        [where skinId = "''rugby''" and g = storeScenario and s = storeScenario] f t r v
    by simp
qed

subsection \<open>The coins submitted at game over\<close>

lemma startGame_keeps_balance:
  "collectedCoins (fst (startGame W H s)) = collectedCoins s"
  by (simp add: startGame_def andThen_def updateAchievementProgress_def Let_def)

lemma started_fields:
  "currentScreen (fst (startGame 375 812 returningPlayer)) = Playing
   \<and> obstacles (fst (startGame 375 812 returningPlayer)) = []
   \<and> coins (fst (startGame 375 812 returningPlayer)) = []
   \<and> score (fst (startGame 375 812 returningPlayer)) = 0
   \<and> collectedCoins (fst (startGame 375 812 returningPlayer)) = 500
   \<and> leaderboard (fst (startGame 375 812 returningPlayer)) = []
   \<and> highScore (fst (startGame 375 812 returningPlayer)) = 0
   \<and> ball (fst (startGame 375 812 returningPlayer)) =
       \<lparr>ball_position = \<lparr>vec_x = 375 / 2, vec_y = 406\<rparr>,
        ball_velocity = \<lparr>vec_x = 0, vec_y = 0\<rparr>, ball_radius = 25\<rparr>"
  by (simp add: startGame_def andThen_def updateAchievementProgress_def Let_def
      returningPlayer_def initialGameState_def BASE_CONFIG_def)

lemma started_deferred: "snd (startGame 375 812 returningPlayer) = []"
  by (simp add: startGame_def andThen_def updateAchievementProgress_def updateAchievement_def
      Let_def returningPlayer_def initialGameState_def INITIAL_ACHIEVEMENTS_def)

lemma started_is_falling: "fst (startGame 375 812 returningPlayer) = fallingState 406 0 0"
  unfolding fallingState_def
  by (rule GameState.equality) (simp_all add: started_fields)

lemma falling_tick:
  "step 375 812 idleTick (fallingState y v n) =
     (fallingState (y + (v + 3/10)) ((v + 3/10) * (99/100)) (n + 1))
       \<lparr>currentScreen := (if 787 \<le> y + (v + 3/10) then GameOver else Playing)\<rparr>"
  unfolding fallingState_def idleTick_def step.simps
  by (rule GameState.equality)
    (simp_all add: started_fields updatePhysics_def Let_def constRandom_def BASE_CONFIG_def
      getDifficultyMultiplier_def min_def boundaryChecks_def applyFriction_def
      updateBallPosition_def applyGravity_def)

lemma falling_tick_air:
  "y + (v + 3/10) < 787 \<Longrightarrow>
   step 375 812 idleTick (fallingState y v n) =
     fallingState (y + (v + 3/10)) ((v + 3/10) * (99/100)) (n + 1)"
  unfolding falling_tick
  by (rule GameState.equality) (simp_all add: fallingState_def started_fields)

lemma falling_tick_ground:
  "787 \<le> y + (v + 3/10) \<Longrightarrow>
   step 375 812 idleTick (fallingState y v n) =
     (fallingState (y + (v + 3/10)) ((v + 3/10) * (99/100)) (n + 1))\<lparr>currentScreen := GameOver\<rparr>"
  unfolding falling_tick by simp

lemma falling_fields:
  "collectedCoins (fallingState y v n) = 500 \<and> score (fallingState y v n) = n
   \<and> currentScreen (fallingState y v n) = Playing"
  by (simp add: fallingState_def started_fields)

lemma run_Cons: "run W H (e # es) s = run W H es (step W H e s)"
  by (simp add: run_def)

lemma fall_reaches_ground:
  "0 \<le> v \<Longrightarrow> 787 - y \<le> 0.3 * real k \<Longrightarrow>
   \<exists>m y' v' n'. run 375 812 (replicate m idleTick) (fallingState y v n)
                  = (fallingState y' v' n')\<lparr>currentScreen := GameOver\<rparr>"
proof (induction k arbitrary: y v n)
  case 0
  then have "787 \<le> y + (v + 3/10)" by simp
  then have "run 375 812 (replicate 1 idleTick) (fallingState y v n)
             = (fallingState (y + (v + 3/10)) ((v + 3/10) * (99/100)) (n + 1))
                 \<lparr>currentScreen := GameOver\<rparr>"
    by (simp add: run_def falling_tick_ground)
  then show ?case by blast
next
  case (Suc k)
  show ?case
  proof (cases "787 \<le> y + (v + 3/10)")
    case True
    then have "run 375 812 (replicate 1 idleTick) (fallingState y v n)
               = (fallingState (y + (v + 3/10)) ((v + 3/10) * (99/100)) (n + 1))
                   \<lparr>currentScreen := GameOver\<rparr>"
      by (simp add: run_def falling_tick_ground)
    then show ?thesis by blast
  next
    case False
    then have air: "step 375 812 idleTick (fallingState y v n)
                    = fallingState (y + (v + 3/10)) ((v + 3/10) * (99/100)) (n + 1)"
      by (simp add: falling_tick_air)
    have v': "0 \<le> (v + 3/10) * (99/100)" using Suc.prems(1) by simp
    have y': "787 - (y + (v + 3/10)) \<le> 0.3 * real k"
      using Suc.prems by (simp add: algebra_simps)
    from Suc.IH [OF v' y', of "n + 1"] obtain m y'' v'' n''
      where "run 375 812 (replicate m idleTick)
               (fallingState (y + (v + 3/10)) ((v + 3/10) * (99/100)) (n + 1))
             = (fallingState y'' v'' n'')\<lparr>currentScreen := GameOver\<rparr>"
      by blast
    then have "run 375 812 (replicate (Suc m) idleTick) (fallingState y v n)
               = (fallingState y'' v'' n'')\<lparr>currentScreen := GameOver\<rparr>"
      by (simp add: run_Cons air)
    then show ?thesis by blast
  qed
qed

lemma coinsCollectedInRun_telescope:
  "coinsCollectedInRun W H es s = collectedCoins (run W H es s) - collectedCoins s"
  by (induction es arbitrary: s) (simp_all add: run_def)

lemma gameOver_leaderboard:
  "currentScreen g = GameOver \<Longrightarrow>
   leaderboard (fst (gameOverEffect now g s))
     = leaderboard (submitScore now (finalScore g) (coinsThisRound g) g s)"
  by (simp add: gameOverEffect_def andThen_def updateAchievementProgress_def Let_def)

lemma submit_first_entry:
  "leaderboard g = [] \<Longrightarrow> map bestCoins (leaderboard (submitScore now t c g s)) = [c]"
  by (simp add: submitScore_def Let_def)

lemma started_achievements:
  "length (achievements (fst (startGame 375 812 returningPlayer))) = 8
   \<and> ach_id (achievements (fst (startGame 375 812 returningPlayer)) ! 5) = ''collect_100_one_game''
   \<and> ach_description (achievements (fst (startGame 375 812 returningPlayer)) ! 5)
       = ''Collect 100 coins in one game''
   \<and> requirement (achievements (fst (startGame 375 812 returningPlayer)) ! 5) = 100"
  by (simp add: startGame_def andThen_def updateAchievementProgress_def updateAchievement_def
      Let_def returningPlayer_def initialGameState_def INITIAL_ACHIEVEMENTS_def)

lemma updateAchievement_keeps:
  "ach_id (fst (updateAchievement c aid p a)) = ach_id a
   \<and> requirement (fst (updateAchievement c aid p a)) = requirement a
   \<and> (completed a \<longrightarrow> completed (fst (updateAchievement c aid p a)))"
  by (simp add: updateAchievement_def Let_def)

lemma updateAchievement_reaches:
  "ach_id a = aid \<Longrightarrow> requirement a \<le> p \<Longrightarrow> completed (fst (updateAchievement c aid p a))"
  by (auto simp: updateAchievement_def Let_def max_def)

lemma andThen_update:
  "achievements (fst (andThen r (updateAchievementProgress aid p)))
     = map (\<lambda>a. fst (updateAchievement (collectedCoins (fst r)) aid p a)) (achievements (fst r))"
  by (simp add: andThen_def updateAchievementProgress_def Let_def)

lemma gameOver_completes_on_balance:
  assumes go: "currentScreen g = GameOver"
    and i: "i < length (achievements s)"
    and aid: "ach_id (achievements s ! i) = ''collect_100_one_game''"
    and rq: "requirement (achievements s ! i) \<le> collectedCoins g"
  shows "completed (achievements (fst (gameOverEffect now g s)) ! i)"
proof -
  define scored where "scored =
    (if finalScore g > highScore g
     then (submitScore now (finalScore g) (coinsThisRound g) g s)\<lparr>highScore := finalScore g\<rparr>
     else submitScore now (finalScore g) (coinsThisRound g) g s)"
  define r1 where "r1 = andThen (scored, [])
    (updateAchievementProgress ''survive_60s'' (finalScore g))"
  define r2 where "r2 = andThen r1 (updateAchievementProgress ''survive_120s'' (finalScore g))"
  define r3 where "r3 = andThen r2 (updateAchievementProgress ''collect_50_coins'' (coinsThisRound g))"
  define r4 where "r4 = andThen r3
    (updateAchievementProgress ''collect_100_one_game'' (coinsThisRound g))"
  define r5 where "r5 = andThen r4
    (updateAchievementProgress ''collect_3_skins'' (int (length (unlockedSkins g))))"
  have e: "gameOverEffect now g s = r5"
    using go by (simp add: gameOverEffect_def r5_def r4_def r3_def r2_def r1_def scored_def Let_def)
  define inv where "inv r \<longleftrightarrow> i < length (achievements (fst r))
      \<and> ach_id (achievements (fst r) ! i) = ''collect_100_one_game''
      \<and> requirement (achievements (fst r) ! i) = requirement (achievements s ! i)"
    for r :: "GameState \<times> deferred list"
  have keep: "inv (andThen r (updateAchievementProgress a p))" if "inv r" for r a p
    using that by (simp add: inv_def andThen_update updateAchievement_keeps)
  have "achievements scored = achievements s"
    by (simp add: scored_def submitScore_def Let_def)
  then have "inv (scored, [])" using i aid by (simp add: inv_def)
  then have "inv r3" unfolding r3_def r2_def r1_def by (intro keep)
  then have "completed (achievements (fst r4) ! i)"
    using rq
    by (simp add: r4_def inv_def andThen_update updateAchievement_reaches coinsThisRound_def)
  moreover have "i < length (achievements (fst r4))"
    using \<open>inv r3\<close> by (simp add: r4_def inv_def andThen_update)
  ultimately have "completed (achievements (fst r5) ! i)"
    by (simp add: r5_def andThen_update updateAchievement_keeps)
  then show ?thesis by (simp add: e)
qed

text \<open>
  Claim C1 against the code. The game-over effect passes \<open>gameState.collectedCoins\<close>, the
  player's persistent coin balance, as the coins of the round. The returning player starts
  a game and never taps: after some number of ticks the ball is on the ground and the game
  is over; the run has collected no coin, and yet the second argument of the score
  submission is 500, the new leaderboard entry has bestCoins 500, and the achievement
  \<open>Collect 100 coins in one game\<close> is completed.
\<close>

theorem idle_run_submits_lifetime_balance:
  "\<exists>m. snd (startGame 375 812 returningPlayer) = []
       \<and> collectedCoins (fst (startGame 375 812 returningPlayer)) = 500
       \<and> currentScreen (run 375 812 (replicate m idleTick) (fst (startGame 375 812 returningPlayer)))
           = GameOver
       \<and> coinsCollectedInRun 375 812 (replicate m idleTick) (fst (startGame 375 812 returningPlayer))
           = 0
       \<and> coinsThisRound (run 375 812 (replicate m idleTick) (fst (startGame 375 812 returningPlayer)))
           = 500
       \<and> map bestCoins (leaderboard (fst (gameOverEffect 0
            (run 375 812 (replicate m idleTick) (fst (startGame 375 812 returningPlayer)))
            (run 375 812 (replicate m idleTick) (fst (startGame 375 812 returningPlayer))))))
           = [500]
       \<and> completed (achievements (fst (gameOverEffect 0
            (run 375 812 (replicate m idleTick) (fst (startGame 375 812 returningPlayer)))
            (run 375 812 (replicate m idleTick) (fst (startGame 375 812 returningPlayer))))) ! 5)"
proof -
  have "(0::real) \<le> 0" and "787 - (406::real) \<le> 0.3 * real 1270" by simp_all
  from fall_reaches_ground [OF this, of 0] obtain m y v n
    where r: "run 375 812 (replicate m idleTick) (fallingState 406 0 0)
              = (fallingState y v n)\<lparr>currentScreen := GameOver\<rparr>"
    by blast
  let ?started = "fst (startGame 375 812 returningPlayer)"
  let ?ended = "run 375 812 (replicate m idleTick) ?started"
  have e: "?ended = (fallingState y v n)\<lparr>currentScreen := GameOver\<rparr>"
    using r by (simp add: started_is_falling)
  have 1: "currentScreen ?ended = GameOver" by (simp add: e)
  have 2: "collectedCoins ?ended = 500" by (simp add: e falling_fields)
  have 3: "leaderboard ?ended = []" by (simp add: e fallingState_def started_fields)
  have 4: "map bestCoins (leaderboard (fst (gameOverEffect 0 ?ended ?ended))) = [500]"
    using 2 by (simp add: gameOver_leaderboard [OF 1] submit_first_entry [OF 3] coinsThisRound_def)
  have 5: "completed (achievements (fst (gameOverEffect 0 ?ended ?ended)) ! 5)"
    using 2 by (intro gameOver_completes_on_balance [OF 1])
      (simp_all add: e fallingState_def started_achievements)
  have 6: "coinsCollectedInRun 375 812 (replicate m idleTick) ?started = 0"
    using 2 by (simp add: coinsCollectedInRun_telescope started_fields)
  show ?thesis
    using started_deferred started_fields 1 2 4 5 6 by (auto simp: coinsThisRound_def)
qed


end
